theory Spec2Isabelle
  imports Complex_Main
begin

section \<open>Errors and arrays\<close>

text \<open>
  The exceptions the modelled code can raise. \<open>ValueError\<close> is what numpy raises for
  operands that cannot be broadcast together, for \<open>argmax\<close> along an axis of length zero,
  and what \<open>range\<close> raises for a zero step; \<open>AxisError\<close> is numpy's error for an axis
  the array does not have.
\<close>

datatype error =
    ValueError
  | AxisError
  | TypeError
  | ZeroDivisionError
  | AttributeError string
  | UnboundLocalError string
  | NonFinite

text \<open>
  \<open>NonFinite\<close> is not a Python exception. The entries of an \<open>ndarray\<close> of the model
  are real numbers. The arrays the loss functions compute with are of dtype float64
  with finite entries, each modelled by the real number it denotes: rounding to the
  nearest float64 is not modelled, the range of float64 is. Where an operation of the
  loss functions would store \<open>-inf\<close>, \<open>inf\<close> or \<open>nan\<close> (a result beyond the float64
  range, the logarithm of a number that is not positive, a division by zero) there is
  no real number to go on with, and the model records that outcome as \<open>NonFinite\<close>.
  Arrays of dtype int64 are modelled where \<open>mean_squared_error_int64\<close> is defined.

  An \<open>ndarray\<close> of rank 1 is its list of entries; an array of rank 2 and shape
  \<open>(m, n)\<close> is \<open>Arr2 n rows\<close> with \<open>m\<close> rows of length \<open>n\<close> (the column count
  is kept so that the shape \<open>(0, n)\<close> is represented).
\<close>

datatype ndarray = Arr1 "real list" | Arr2 nat "real list list"

fun shape :: "ndarray \<Rightarrow> nat list" where
  "shape (Arr1 xs) = [length xs]"
| "shape (Arr2 n rows) = [length rows, n]"

fun rect :: "ndarray \<Rightarrow> bool" where
  "rect (Arr1 xs) = True"
| "rect (Arr2 n rows) = list_all (\<lambda>r. length r = n) rows"

fun elems :: "ndarray \<Rightarrow> real list" where
  "elems (Arr1 xs) = xs"
| "elems (Arr2 n rows) = concat rows"

fun map_arr :: "(real \<Rightarrow> real) \<Rightarrow> ndarray \<Rightarrow> ndarray" where
  "map_arr f (Arr1 xs) = Arr1 (map f xs)"
| "map_arr f (Arr2 n rows) = Arr2 n (map (map f) rows)"

text \<open>\<open>np.expand_dims(a, axis=1)\<close> on a rank-1 array: shape \<open>(m,)\<close> becomes \<open>(m, 1)\<close>.\<close>

fun expand_dims :: "ndarray \<Rightarrow> ndarray" where
  "expand_dims (Arr1 xs) = Arr2 1 (map (\<lambda>v. [v]) xs)"
| "expand_dims (Arr2 n rows) = Arr2 n rows"

subsection \<open>Broadcasting\<close>

text \<open>
  numpy's rule for a binary operation: two dimensions are compatible when they are
  equal or one of them is 1; a dimension of 1 is stretched to the other; a rank-1
  operand meeting a rank-2 operand is read as a single row.
\<close>

definition bdim :: "nat \<Rightarrow> nat \<Rightarrow> nat option" where
  "bdim a b = (if a = b then Some a else if a = 1 then Some b else if b = 1 then Some a else None)"

definition stretch :: "nat \<Rightarrow> 'a list \<Rightarrow> 'a list" where
  "stretch k xs = (if length xs = k then xs else replicate k (hd xs))"

definition elementwise2 ::
  "(real \<Rightarrow> real \<Rightarrow> real) \<Rightarrow> nat \<Rightarrow> real list list \<Rightarrow> nat \<Rightarrow> real list list \<Rightarrow> error + ndarray" where
  "elementwise2 f n rows n' rows' =
     (case bdim (length rows) (length rows') of
        None \<Rightarrow> Inl ValueError
      | Some m \<Rightarrow>
         (case bdim n n' of
            None \<Rightarrow> Inl ValueError
          | Some k \<Rightarrow>
              Inr (Arr2 k (map2 (\<lambda>r r'. map2 f (stretch k r) (stretch k r'))
                             (stretch m rows) (stretch m rows')))))"

fun elementwise :: "(real \<Rightarrow> real \<Rightarrow> real) \<Rightarrow> ndarray \<Rightarrow> ndarray \<Rightarrow> error + ndarray" where
  "elementwise f (Arr1 xs) (Arr1 ys) =
     (case bdim (length xs) (length ys) of
        None \<Rightarrow> Inl ValueError
      | Some k \<Rightarrow> Inr (Arr1 (map2 f (stretch k xs) (stretch k ys))))"
| "elementwise f (Arr1 xs) (Arr2 n rows) = elementwise2 f (length xs) [xs] n rows"
| "elementwise f (Arr2 n rows) (Arr1 ys) = elementwise2 f n rows (length ys) [ys]"
| "elementwise f (Arr2 n rows) (Arr2 n' rows') = elementwise2 f n rows n' rows'"

subsection \<open>The range of float64\<close>

text \<open>
  A float64 operation rounds its exact result to the nearest float64; an exact result of
  magnitude \<open>2^1024 - 2^970\<close> or more (half a unit in the last place above the largest
  float64) is stored as \<open>inf\<close>.
\<close>

definition f64_overflow :: "real \<Rightarrow> bool" where
  "f64_overflow r = (2 ^ 1024 - 2 ^ 970 \<le> \<bar>r\<bar>)"

definition f64_results :: "ndarray \<Rightarrow> error + ndarray" where
  "f64_results a =
     (if list_all (\<lambda>v. \<not> f64_overflow v) (elems a) then Inr a else Inl NonFinite)"

definition and_then :: "error + 'a \<Rightarrow> ('a \<Rightarrow> error + 'b) \<Rightarrow> error + 'b" where
  "and_then r f = (case r of Inl e \<Rightarrow> Inl e | Inr v \<Rightarrow> f v)"

subsection \<open>The numpy operations the loss functions use\<close>

definition np_subtract :: "ndarray \<Rightarrow> ndarray \<Rightarrow> error + ndarray" where
  "np_subtract a b = and_then (elementwise (\<lambda>x y. x - y) a b) f64_results"

definition np_multiply :: "ndarray \<Rightarrow> ndarray \<Rightarrow> error + ndarray" where
  "np_multiply a b = and_then (elementwise (\<lambda>x y. x * y) a b) f64_results"

definition np_add :: "ndarray \<Rightarrow> ndarray \<Rightarrow> error + ndarray" where
  "np_add a b = and_then (elementwise (\<lambda>x y. x + y) a b) f64_results"

definition np_square :: "ndarray \<Rightarrow> error + ndarray" where
  "np_square a = f64_results (map_arr (\<lambda>v. v * v) a)"

text \<open>
  \<open>np.mean\<close> over all entries: their sum divided by their number. Over no entries it is
  0/0, which numpy returns as \<open>nan\<close>; a sum beyond the float64 range is \<open>inf\<close> (the
  entries summed here are squares, so the running sum is never above the total). Both
  are the value \<open>None\<close>.
\<close>

definition np_mean :: "ndarray \<Rightarrow> real option" where
  "np_mean a = (if elems a = [] then None
                else if f64_overflow (sum_list (elems a)) then None
                else Some (sum_list (elems a) / real (length (elems a))))"

definition np_clip :: "ndarray \<Rightarrow> real \<Rightarrow> real \<Rightarrow> ndarray" where
  "np_clip a lo hi = map_arr (\<lambda>v. min (max v lo) hi) a"

definition np_log :: "ndarray \<Rightarrow> error + ndarray" where
  "np_log a = (if list_all (\<lambda>v. 0 < v) (elems a) then Inr (map_arr ln a) else Inl NonFinite)"

definition np_divide :: "ndarray \<Rightarrow> ndarray \<Rightarrow> error + ndarray" where
  "np_divide a b =
     (case elementwise (\<lambda>x y. x / y) a b of
        Inl e \<Rightarrow> Inl e
      | Inr q \<Rightarrow> if list_all (\<lambda>v. v \<noteq> 0) (elems b) then f64_results q else Inl NonFinite)"

definition np_negative :: "ndarray \<Rightarrow> ndarray" where
  "np_negative a = map_arr uminus a"

definition one_minus :: "ndarray \<Rightarrow> ndarray" where
  "one_minus a = map_arr (\<lambda>v. 1 - v) a"

section \<open>Loss functions (losses.py)\<close>

text \<open>
  A loss function returns its error, or the pair of its error and the derivative when
  \<open>return_deriv\<close> is set. The error of \<open>mean_squared_error\<close> is a scalar (\<open>None\<close>
  when it is not a finite number), the error of \<open>cross_entropy\<close> is an array.
\<close>

datatype loss_value = Scalar "real option" | PerElement ndarray

datatype loss_result = Error_only loss_value | Error_and_deriv loss_value ndarray

definition promote_target :: "ndarray \<Rightarrow> ndarray" where
  "promote_target y_target =
     (if length (shape y_target) = 1 then expand_dims y_target else y_target)"

definition mean_squared_error :: "ndarray \<Rightarrow> ndarray \<Rightarrow> bool \<Rightarrow> error + loss_result" where
  "mean_squared_error y_predicted y_target return_deriv =
     (let y_target = promote_target y_target in
      if return_deriv then
        and_then (np_subtract y_predicted y_target) (\<lambda>d.
        and_then (np_square d) (\<lambda>sq.
        and_then (np_subtract y_predicted y_target) (\<lambda>d'.
          Inr (Error_and_deriv (Scalar (np_mean sq)) d'))))
      else
        and_then (np_subtract y_predicted y_target) (\<lambda>d.
        and_then (np_square d) (\<lambda>sq.
          Inr (Error_only (Scalar (np_mean sq))))))"

text \<open>
  numpy runs the same function in the dtype of its arguments. On matrices of dtype
  int64 the subtraction and the square are int64 operations, whose results wrap around
  modulo \<open>2^64\<close>, and \<open>np.mean\<close> converts the squares to float64. This is the error
  value for two int64 matrices of one shape, given by their rows.
\<close>

definition wrap_int64 :: "int \<Rightarrow> int" where
  "wrap_int64 v = (v + 2 ^ 63) mod 2 ^ 64 - 2 ^ 63"

definition mean_squared_error_int64 :: "int list list \<Rightarrow> int list list \<Rightarrow> real option" where
  "mean_squared_error_int64 y_predicted y_target =
     np_mean (Arr1 (concat (map2 (map2 (\<lambda>a b.
        real_of_int (wrap_int64 (wrap_int64 (a - b) * wrap_int64 (a - b)))))
        y_predicted y_target)))"

text \<open>
  The bounds of the clip. \<open>1e-15\<close> is the literal. The upper bound \<open>1 - 1e-15\<close> is
  computed in float64, and here the rounding is of the size of the bound's distance
  from 1: the floats below 1 are \<open>2^-53\<close> apart, and the one nearest to the exact
  difference is \<open>1 - 9 * 2^-53\<close>.
\<close>

definition eps :: real where
  "eps = 1 / 10 ^ 15"

definition clip_hi :: real where
  "clip_hi = 1 - 9 / 2 ^ 53"

definition cross_entropy :: "ndarray \<Rightarrow> ndarray \<Rightarrow> bool \<Rightarrow> error + loss_result" where
  "cross_entropy y_predicted y_target return_deriv =
     (let y_target = promote_target y_target;
          y_predicted = np_clip y_predicted eps clip_hi in
      and_then (np_log y_predicted) (\<lambda>l1.
      and_then (np_multiply y_target l1) (\<lambda>a.
      and_then (np_log (one_minus y_predicted)) (\<lambda>l2.
      and_then (np_multiply (one_minus y_target) l2) (\<lambda>b.
      and_then (np_add a b) (\<lambda>s.
        let crl = np_negative s in
        if return_deriv then
          and_then (np_divide y_target y_predicted) (\<lambda>q.
          and_then (np_divide (one_minus y_target) (one_minus y_predicted)) (\<lambda>r.
          and_then (np_add (np_negative q) r) (\<lambda>deriv.
            Inr (Error_and_deriv (PerElement crl) deriv))))
        else Inr (Error_only (PerElement crl))))))))"

section \<open>More array operations used by the model\<close>

fun shape0 :: "ndarray \<Rightarrow> nat" where
  "shape0 (Arr1 xs) = length xs"
| "shape0 (Arr2 n rows) = length rows"

text \<open>The entries along axis 0: the rows of a matrix, the single values of a vector.\<close>

fun axis0 :: "ndarray \<Rightarrow> real list list" where
  "axis0 (Arr1 xs) = map (\<lambda>v. [v]) xs"
| "axis0 (Arr2 n rows) = rows"

text \<open>
  Python's \<open>xs[i:j]\<close>: a negative bound counts from the end, and both bounds are cut
  to the length.
\<close>

definition slice_bound :: "int \<Rightarrow> nat \<Rightarrow> nat" where
  "slice_bound i n = (if i < 0 then nat (max (i + int n) 0) else min (nat i) n)"

definition py_slice :: "'a list \<Rightarrow> int \<Rightarrow> int \<Rightarrow> 'a list" where
  "py_slice xs i j =
     (let lo = slice_bound i (length xs); hi = slice_bound j (length xs)
      in take (hi - lo) (drop lo xs))"

fun slice0 :: "ndarray \<Rightarrow> int \<Rightarrow> int \<Rightarrow> ndarray" where
  "slice0 (Arr1 xs) i j = Arr1 (py_slice xs i j)"
| "slice0 (Arr2 n rows) i j = Arr2 n (py_slice rows i j)"

text \<open>Python's \<open>range(start, stop, step)\<close>, which raises ValueError for a zero step.\<close>

definition py_range :: "int \<Rightarrow> int \<Rightarrow> int \<Rightarrow> error + int list" where
  "py_range start stop step =
     (if step = 0 then Inl ValueError
      else if 0 < step then
        Inr (map (\<lambda>i. start + int i * step) [0..<nat ((stop - start + step - 1) div step)])
      else
        Inr (map (\<lambda>i. start + int i * step) [0..<nat ((start - stop - step - 1) div (- step))]))"

text \<open>
  \<open>np.argmax\<close> of one row: the index of the first occurrence of the largest entry.
\<close>

fun argmax :: "real list \<Rightarrow> nat" where
  "argmax [] = 0"
| "argmax [x] = 0"
| "argmax (x # y # ys) = (let j = argmax (y # ys) in if (y # ys) ! j \<le> x then 0 else Suc j)"

text \<open>
  \<open>np.argmax(a, axis=1)\<close>: a rank-1 array has no axis 1, and a row of length zero has
  no largest entry.
\<close>

fun np_argmax_axis1 :: "ndarray \<Rightarrow> error + ndarray" where
  "np_argmax_axis1 (Arr1 xs) = Inl AxisError"
| "np_argmax_axis1 (Arr2 n rows) =
     (if n = 0 then Inl ValueError else Inr (Arr1 (map (\<lambda>r. real (argmax r)) rows)))"

definition count_nonzero :: "ndarray \<Rightarrow> nat" where
  "count_nonzero a = length (filter (\<lambda>v. v \<noteq> 0) (elems a))"

section \<open>The Sequential model (sequential.py)\<close>

text \<open>
  A layer is any object with the three methods the model calls. The layers are not part
  of the modelled files: their methods are parameters, acting on a state \<open>'w\<close> that
  holds everything the layer objects own (weights, cached activations). A method
  returns its result and the new state.
\<close>

record ('w, 'o) layer =
  forward :: "ndarray \<Rightarrow> bool \<Rightarrow> 'w \<Rightarrow> (ndarray \<times> ndarray) \<times> 'w"
  back_propogate :: "ndarray \<Rightarrow> 'w \<Rightarrow> ndarray \<times> 'w"
  optimize :: "'o \<Rightarrow> 'w \<Rightarrow> 'w"

text \<open>
  What \<open>getattr(losses, name)\<close> can return: the names bound at the top level of
  losses.py, and the attributes the interpreter gives every module object
  (\<open>__name__\<close>, \<open>__doc__\<close>, ...), which depend on the Python version and are a
  parameter.
\<close>

datatype attribute =
    Function_mean_squared_error
  | Function_cross_entropy
  | Module_numpy
  | Module_logging
  | Logger_object
  | Interpreter_attribute string

definition losses_namespace :: "(string \<times> attribute) list" where
  "losses_namespace =
     [(''np'', Module_numpy),
      (''logging'', Module_logging),
      (''logger'', Logger_object),
      (''mean_squared_error'', Function_mean_squared_error),
      (''cross_entropy'', Function_cross_entropy)]"

definition getattr_losses :: "string list \<Rightarrow> string \<Rightarrow> error + attribute" where
  "getattr_losses interp name =
     (case map_of losses_namespace name of
        Some a \<Rightarrow> Inr a
      | None \<Rightarrow> if name \<in> set interp then Inr (Interpreter_attribute name)
                else Inl (AttributeError name))"

text \<open>Calling the bound attribute as a loss function; only the two functions take
  these arguments.\<close>

fun call_loss :: "attribute \<Rightarrow> ndarray \<Rightarrow> ndarray \<Rightarrow> bool \<Rightarrow> error + loss_result" where
  "call_loss Function_mean_squared_error p t rd = mean_squared_error p t rd"
| "call_loss Function_cross_entropy p t rd = cross_entropy p t rd"
| "call_loss _ p t rd = Inl TypeError"

text \<open>The attributes \<open>optimizer\<close> and \<open>loss\<close> do not exist before \<open>compile\<close>.\<close>

record ('w, 'o) sequential =
  layers :: "('w, 'o) layer list"
  verbose :: bool
  vis_each_epoch :: bool
  optimizer :: "'o option"
  loss :: "attribute option"

definition init :: "bool \<Rightarrow> bool \<Rightarrow> ('w, 'o) sequential" where
  "init verbose_flag vis = \<lparr>layers = [], verbose = verbose_flag, vis_each_epoch = vis,
                           optimizer = None, loss = None\<rparr>"

definition add :: "('w, 'o) sequential \<Rightarrow> ('w, 'o) layer \<Rightarrow> ('w, 'o) sequential" where
  "add m l = m\<lparr>layers := layers m @ [l]\<rparr>"

text \<open>\<open>compile\<close> assigns the optimizer first; a failing lookup leaves it assigned.\<close>

definition compile ::
  "string list \<Rightarrow> ('w, 'o) sequential \<Rightarrow> 'o \<Rightarrow> string \<Rightarrow> (error + unit) \<times> ('w, 'o) sequential" where
  "compile interp m opt loss_name =
     (let m1 = m\<lparr>optimizer := Some opt\<rparr> in
      case getattr_losses interp loss_name of
        Inl e \<Rightarrow> (Inl e, m1)
      | Inr a \<Rightarrow> (Inr (), m1\<lparr>loss := Some a\<rparr>))"

subsection \<open>forwardpass and predict\<close>

datatype forward_result = Output ndarray | Output_and_deriv ndarray ndarray

text \<open>
  The loop of \<open>forwardpass\<close>. \<open>Z_deriv\<close> is a local variable that is bound only by
  the loop body: \<open>None\<close> while it is unbound.
\<close>

fun forward_loop ::
  "('w, 'o) layer list \<Rightarrow> ndarray \<Rightarrow> ndarray option \<Rightarrow> 'w \<Rightarrow> (ndarray \<times> ndarray option) \<times> 'w" where
  "forward_loop [] Z Z_deriv w = ((Z, Z_deriv), w)"
| "forward_loop (l # ls) Z Z_deriv w =
     (case forward l Z True w of
        ((Z', Z_deriv'), w') \<Rightarrow> forward_loop ls Z' (Some Z_deriv') w')"

definition forwardpass ::
  "('w, 'o) sequential \<Rightarrow> ndarray \<Rightarrow> bool \<Rightarrow> 'w \<Rightarrow> (error + forward_result) \<times> 'w" where
  "forwardpass m X return_deriv w =
     (case forward_loop (layers m) X None w of
        ((Z, Z_deriv), w') \<Rightarrow>
          if return_deriv then
            (case Z_deriv of
               None \<Rightarrow> (Inl (UnboundLocalError ''Z_deriv''), w')
             | Some d \<Rightarrow> (Inr (Output_and_deriv Z d), w'))
          else (Inr (Output Z), w'))"

text \<open>\<open>predict\<close> calls \<open>forwardpass\<close> without the derivative, so the result is a single
  array; the pair is listed for completeness only.\<close>

definition predict ::
  "('w, 'o) sequential \<Rightarrow> ndarray \<Rightarrow> bool \<Rightarrow> 'w \<Rightarrow> (error + ndarray) \<times> 'w" where
  "predict m X prob w =
     (case forwardpass m X False w of
        (Inl e, w') \<Rightarrow> (Inl e, w')
      | (Inr (Output_and_deriv Z d), w') \<Rightarrow> (Inl TypeError, w')
      | (Inr (Output predictions), w') \<Rightarrow>
          if \<not> prob then
            (case np_argmax_axis1 predictions of
               Inl e \<Rightarrow> (Inl e, w')
             | Inr classes \<Rightarrow> (Inr classes, w'))
          else (Inr predictions, w'))"

subsection \<open>accuracy\<close>

text \<open>
  \<open>errors\<close> and the quotient are Python floats: the division raises ZeroDivisionError
  when \<open>total_samples * 0.01\<close> is zero. \<open>/\<close> is true division (Python 3).
\<close>

definition accuracy ::
  "('w, 'o) sequential \<Rightarrow> ndarray \<Rightarrow> ndarray \<Rightarrow> 'w \<Rightarrow> (error + real) \<times> 'w" where
  "accuracy m X y w =
     (case (if 1 < length (shape y) then np_argmax_axis1 y else Inr y) of
        Inl e \<Rightarrow> (Inl e, w)
      | Inr y \<Rightarrow>
         (case predict m X False w of
            (Inl e, w') \<Rightarrow> (Inl e, w')
          | (Inr y_pred, w') \<Rightarrow>
             (case elementwise (\<lambda>a b. a - b) y y_pred of
                Inl e \<Rightarrow> (Inl e, w')
              | Inr diff_arr \<Rightarrow>
                 (let total_samples = shape0 y;
                      errors = real (count_nonzero diff_arr) / 2
                  in if real total_samples * (1 / 100) = 0 then (Inl ZeroDivisionError, w')
                     else (Inr (100 - errors / (real total_samples * (1 / 100))), w')))))"

subsection \<open>The backward pass\<close>

text \<open>The loop of \<open>back_propogate_and_update\<close> over the reversed layer list.\<close>

fun backward_loop :: "('w, 'o) layer list \<Rightarrow> ndarray \<Rightarrow> 'o \<Rightarrow> 'w \<Rightarrow> 'w" where
  "backward_loop [] dEdO opt w = w"
| "backward_loop (l # ls) dEdO opt w =
     (case back_propogate l dEdO w of
        (dEdO', w') \<Rightarrow> backward_loop ls dEdO' opt (optimize l opt w'))"

definition back_propogate_and_update ::
  "('w, 'o) sequential \<Rightarrow> ndarray \<Rightarrow> 'o \<Rightarrow> 'w \<Rightarrow> 'w" where
  "back_propogate_and_update m dEdO opt w = backward_loop (rev (layers m)) dEdO opt w"

definition update_batch ::
  "('w, 'o) sequential \<Rightarrow> ndarray \<Rightarrow> ndarray \<Rightarrow> 'w \<Rightarrow> (error + unit) \<times> 'w" where
  "update_batch m X Y w =
     (case forwardpass m X False w of
        (Inl e, w') \<Rightarrow> (Inl e, w')
      | (Inr (Output_and_deriv Z d), w') \<Rightarrow> (Inl TypeError, w')
      | (Inr (Output y_pred), w') \<Rightarrow>
         (case loss m of
            None \<Rightarrow> (Inl (AttributeError ''loss''), w')
          | Some f \<Rightarrow>
             (case call_loss f y_pred Y True of
                Inl e \<Rightarrow> (Inl e, w')
              | Inr (Error_only v) \<Rightarrow> (Inl TypeError, w')
              | Inr (Error_and_deriv v dEdO) \<Rightarrow>
                 (case optimizer m of
                    None \<Rightarrow> (Inl (AttributeError ''optimizer''), w')
                  | Some opt \<Rightarrow> (Inr (), back_propogate_and_update m dEdO opt w')))))"

subsection \<open>fit\<close>

text \<open>The batches of one epoch: one pair of slices for each value of the inner
  \<open>range\<close>.\<close>

definition epoch_batches :: "ndarray \<Rightarrow> ndarray \<Rightarrow> int \<Rightarrow> error + (ndarray \<times> ndarray) list" where
  "epoch_batches X y batch_size =
     (case py_range 0 (int (shape0 X)) batch_size of
        Inl e \<Rightarrow> Inl e
      | Inr starts \<Rightarrow>
          Inr (map (\<lambda>current_batch.
                      (slice0 X current_batch (current_batch + batch_size),
                       slice0 y current_batch (current_batch + batch_size))) starts))"

fun run_batches ::
  "('w, 'o) sequential \<Rightarrow> (ndarray \<times> ndarray) list \<Rightarrow> 'w \<Rightarrow> (error + unit) \<times> 'w" where
  "run_batches m [] w = (Inr (), w)"
| "run_batches m ((batch_X, batch_y) # bs) w =
     (case update_batch m batch_X batch_y w of
        (Inl e, w') \<Rightarrow> (Inl e, w')
      | (Inr u, w') \<Rightarrow> run_batches m bs w')"

text \<open>
  The report at the end of an epoch. What is printed is not modelled, only what is
  computed for it: \<open>{:0.3f}\<close> formats a scalar and raises TypeError for an array.

  Modelled from the spec: \<open>binary_visualize\<close> (fromscratchtoml.toolbox) is a plotting
  routine that does not affect numerical state; it is left out. \<open>progress\<close>
  (fromscratchtoml.toolbox) wraps the epoch range and yields its elements unchanged.
\<close>

definition report ::
  "('w, 'o) sequential \<Rightarrow> ndarray \<Rightarrow> ndarray \<Rightarrow> 'w \<Rightarrow> (error + unit) \<times> 'w" where
  "report m X y w =
     (case predict m X True w of
        (Inl e, w1) \<Rightarrow> (Inl e, w1)
      | (Inr y_pred, w1) \<Rightarrow>
         (case loss m of
            None \<Rightarrow> (Inl (AttributeError ''loss''), w1)
          | Some f \<Rightarrow>
             (case call_loss f y_pred y False of
                Inl e \<Rightarrow> (Inl e, w1)
              | Inr r \<Rightarrow>
                 (case accuracy m X y w1 of
                    (Inl e, w2) \<Rightarrow> (Inl e, w2)
                  | (Inr acc, w2) \<Rightarrow>
                     (case r of
                        Error_only (Scalar v) \<Rightarrow> (Inr (), w2)
                      | _ \<Rightarrow> (Inl TypeError, w2))))))"

fun epoch_loop ::
  "('w, 'o) sequential \<Rightarrow> ndarray \<Rightarrow> ndarray \<Rightarrow> int \<Rightarrow> int \<Rightarrow> int list \<Rightarrow> 'w \<Rightarrow> (error + unit) \<times> 'w" where
  "epoch_loop m X y epochs batch_size [] w = (Inr (), w)"
| "epoch_loop m X y epochs batch_size (epoch # rest) w =
     (case epoch_batches X y batch_size of
        Inl e \<Rightarrow> (Inl e, w)
      | Inr batches \<Rightarrow>
         (case run_batches m batches w of
            (Inl e, w1) \<Rightarrow> (Inl e, w1)
          | (Inr u, w1) \<Rightarrow>
             if verbose m \<or> epoch = epochs - 1 then
               (case report m X y w1 of
                  (Inl e, w2) \<Rightarrow> (Inl e, w2)
                | (Inr u', w2) \<Rightarrow> epoch_loop m X y epochs batch_size rest w2)
             else epoch_loop m X y epochs batch_size rest w1))"

definition fit_batch_size :: "int option \<Rightarrow> ndarray \<Rightarrow> int" where
  "fit_batch_size batch_size X = (case batch_size of None \<Rightarrow> int (shape0 X) | Some k \<Rightarrow> k)"

definition fit ::
  "('w, 'o) sequential \<Rightarrow> ndarray \<Rightarrow> ndarray \<Rightarrow> int \<Rightarrow> int option \<Rightarrow> 'w \<Rightarrow> (error + unit) \<times> 'w" where
  "fit m X y epochs batch_size w =
     epoch_loop m X y epochs (fit_batch_size batch_size X) [0..epochs - 1] w"

section \<open>Observing the calls made on the layers\<close>

text \<open>
  To state in which order the model calls its layers, every layer is wrapped so that
  each \<open>back_propogate\<close> and \<open>optimize\<close> call appends a record to a log carried
  beside the layers' state: the position of the layer in insertion order (from 1) and
  the argument of the call. The wrapped methods otherwise do what the layer does.
\<close>

datatype 'o call = Back_propogate nat ndarray | Optimize nat 'o

definition traced :: "nat \<Rightarrow> ('w, 'o) layer \<Rightarrow> ('w \<times> 'o call list, 'o) layer" where
  "traced i l =
     \<lparr>forward = (\<lambda>Z rd (w, tr). case forward l Z rd w of (r, w') \<Rightarrow> (r, (w', tr))),
      back_propogate = (\<lambda>g (w, tr).
         case back_propogate l g w of (g', w') \<Rightarrow> (g', (w', tr @ [Back_propogate i g]))),
      optimize = (\<lambda>opt (w, tr). (optimize l opt w, tr @ [Optimize i opt]))\<rparr>"

definition instrument :: "('w, 'o) sequential \<Rightarrow> ('w \<times> 'o call list, 'o) sequential" where
  "instrument m =
     \<lparr>layers = map (\<lambda>(i, l). traced (Suc i) l) (enumerate 0 (layers m)),
      verbose = verbose m, vis_each_epoch = vis_each_epoch m,
      optimizer = optimizer m, loss = loss m\<rparr>"

text \<open>
  The calls the backward pass is expected to make on layers \<open>k, k-1, ..., 1\<close>, written
  from the description: on each layer \<open>back_propogate\<close> with the current gradient, then
  \<open>optimize\<close> with the optimizer, and the gradient returned goes to the layer before.
\<close>

fun reverse_order_calls ::
  "nat \<Rightarrow> ('w, 'o) layer list \<Rightarrow> ndarray \<Rightarrow> 'o \<Rightarrow> 'w \<Rightarrow> 'o call list" where
  "reverse_order_calls 0 ls g opt w = []"
| "reverse_order_calls (Suc k) ls g opt w =
     (case back_propogate (ls ! k) g w of
        (g', w') \<Rightarrow>
          Back_propogate (Suc k) g # Optimize (Suc k) opt
            # reverse_order_calls k ls g' opt (optimize (ls ! k) opt w'))"

section \<open>The training loop as described\<close>

text \<open>
  Written from the description of \<open>fit\<close>, to be compared with \<open>fit\<close>: the batches of
  a list are processed by \<open>update_batch\<close> one after the other, in the order of the
  list, each starting from the state the one before left, and a failure ends the
  processing.
\<close>

definition process_in_order ::
  "('w, 'o) sequential \<Rightarrow> (ndarray \<times> ndarray) list \<Rightarrow> 'w \<Rightarrow> (error + unit) \<times> 'w" where
  "process_in_order m batches w =
     foldl (\<lambda>(r, w) (batch_X, batch_y).
              case r of Inl e \<Rightarrow> (Inl e, w) | Inr u \<Rightarrow> update_batch m batch_X batch_y w)
       (Inr (), w) batches"

text \<open>Every epoch processes the same list of batches in order and then, when the
  model is verbose or the epoch is the last one, computes the report.\<close>

definition epochs_over_batches ::
  "('w, 'o) sequential \<Rightarrow> ndarray \<Rightarrow> ndarray \<Rightarrow> int \<Rightarrow> (ndarray \<times> ndarray) list \<Rightarrow> 'w
     \<Rightarrow> (error + unit) \<times> 'w" where
  "epochs_over_batches m X y epochs batches w =
     foldl (\<lambda>(r, w) epoch.
              case r of
                Inl e \<Rightarrow> (Inl e, w)
              | Inr u \<Rightarrow>
                 (case process_in_order m batches w of
                    (Inl e, w1) \<Rightarrow> (Inl e, w1)
                  | (Inr u', w1) \<Rightarrow>
                     if verbose m \<or> epoch = epochs - 1 then report m X y w1 else (Inr (), w1)))
       (Inr (), w) [0..epochs - 1]"

section \<open>Example models\<close>

text \<open>A model without layers, compiled with the mean squared error; the layers' state
  and the optimizer are trivial.\<close>

definition zero_layer_model :: "(unit, unit) sequential" where
  "zero_layer_model = snd (compile [] (init False False) () ''mean_squared_error'')"

text \<open>
  A layer whose single weight lives in the shared state: it scales its input by the
  weight in both directions, and \<open>optimize\<close> lowers the weight by the optimizer's
  learning rate.
\<close>

definition weight_layer :: "(real, real) layer" where
  "weight_layer =
     \<lparr>forward = (\<lambda>Z rd w. ((map_arr (\<lambda>v. w * v) Z, map_arr (\<lambda>v. w) Z), w)),
      back_propogate = (\<lambda>g w. (map_arr (\<lambda>v. w * v) g, w)),
      optimize = (\<lambda>lr w. w - lr)\<rparr>"

definition two_layer_model :: "(real, real) sequential" where
  "two_layer_model = add (add (init False False) weight_layer) weight_layer"

text \<open>The same model compiled with learning rate 1 and the mean squared error.\<close>

definition compiled_two_layer_model :: "(real, real) sequential" where
  "compiled_two_layer_model = snd (compile [] two_layer_model 1 ''mean_squared_error'')"

section \<open>Auxiliary notions for the proofs\<close>

definition clamp :: "real \<Rightarrow> real" where
  "clamp v = min (max v eps) clip_hi"

definition sq_diff_rows :: "real list list \<Rightarrow> real list list \<Rightarrow> real list list" where
  "sq_diff_rows p t = map (map (\<lambda>v. v * v)) (map2 (map2 (\<lambda>a b. a - b)) p t)"

section \<open>Facts about the array operations\<close>

lemma stretch_same: "length xs = k \<Longrightarrow> stretch k xs = xs"
  by (simp add: stretch_def)

lemma bdim_same: "bdim a a = Some a"
  by (simp add: bdim_def)

lemma map2_stretch_rows:
  assumes "list_all (\<lambda>r. length r = n) rows" "list_all (\<lambda>r. length r = n) rows'"
  shows "map2 (\<lambda>r r'. map2 f (stretch n r) (stretch n r')) rows rows' = map2 (map2 f) rows rows'"
proof (rule map_cong)
  fix z assume z: "z \<in> set (zip rows rows')"
  obtain r r' where zz: "z = (r, r')" by (cases z)
  with z have "r \<in> set rows" "r' \<in> set rows'"
    by (auto dest: set_zip_leftD set_zip_rightD)
  then have "stretch n r = r" "stretch n r' = r'"
    using assms by (simp_all add: list_all_iff stretch_same)
  then show "(case z of (r, r') \<Rightarrow> map2 f (stretch n r) (stretch n r')) = (case z of (r, r') \<Rightarrow> map2 f r r')"
    by (simp add: zz)
qed simp

lemma elementwise_same_shape:
  assumes "rect (Arr2 n rows)" "rect (Arr2 n rows')" "length rows = length rows'"
  shows "elementwise f (Arr2 n rows) (Arr2 n rows') = Inr (Arr2 n (map2 (map2 f) rows rows'))"
  using assms by (simp add: elementwise2_def bdim_same stretch_same map2_stretch_rows)

lemma and_then_Inr [simp]: "and_then (Inr v) f = f v"
  by (simp add: and_then_def)

lemma and_then_Inl [simp]: "and_then (Inl e) f = Inl e"
  by (simp add: and_then_def)

lemma sum_list_concat_nth:
  assumes "\<forall>r\<in>set rows. length r = n"
  shows "sum_list (concat rows) = (\<Sum>i<length rows. \<Sum>j<n. rows ! i ! j)"
proof -
  have "sum_list (concat rows) = sum_list (map sum_list rows)"
    by (induction rows) simp_all
  also have "\<dots> = (\<Sum>i<length rows. sum_list (rows ! i))"
    by (simp add: sum_list_sum_nth atLeast0LessThan)
  also have "\<dots> = (\<Sum>i<length rows. \<Sum>j<n. rows ! i ! j)"
    using assms by (intro sum.cong) (auto simp: sum_list_sum_nth atLeast0LessThan)
  finally show ?thesis .
qed

lemma length_concat_rect:
  assumes "\<forall>r\<in>set rows. length r = n"
  shows "length (concat rows) = length rows * n"
  using assms by (induction rows) simp_all

lemma sq_diff_rows_props:
  assumes "list_all (\<lambda>r. length r = n) p" "list_all (\<lambda>r. length r = n) t" "length p = m" "length t = m"
  shows "length (sq_diff_rows p t) = m"
    and "\<forall>r\<in>set (sq_diff_rows p t). length r = n"
    and "\<And>i j. i < m \<Longrightarrow> j < n \<Longrightarrow> sq_diff_rows p t ! i ! j = (p ! i ! j - t ! i ! j)\<^sup>2"
proof -
  show "length (sq_diff_rows p t) = m" using assms by (simp add: sq_diff_rows_def)
  show "\<forall>r\<in>set (sq_diff_rows p t). length r = n"
  proof
    fix r assume "r \<in> set (sq_diff_rows p t)"
    then obtain a b where ab: "(a, b) \<in> set (zip p t)" "r = map (\<lambda>v. v * v) (map2 (\<lambda>a b. a - b) a b)"
      by (auto simp: sq_diff_rows_def)
    from ab(1) have "a \<in> set p" "b \<in> set t"
      by (auto dest: set_zip_leftD set_zip_rightD)
    then show "length r = n" using assms ab(2) by (simp add: list_all_iff)
  qed
  fix i j assume "i < m" "j < n"
  moreover have "length (p ! i) = n" "length (t ! i) = n"
    using assms \<open>i < m\<close> by (simp_all add: list_all_length)
  ultimately show "sq_diff_rows p t ! i ! j = (p ! i ! j - t ! i ! j)\<^sup>2"
    using assms by (simp add: sq_diff_rows_def power2_eq_square)
qed

lemma f64_threshold_ge_one: "(1::real) \<le> 2 ^ 1024 - 2 ^ 970"
proof -
  have "(2::real) ^ 1024 = 2 ^ 970 * 2 ^ 54" by (simp add: power_add[symmetric])
  moreover have "(1::real) \<le> 2 ^ 970" by simp
  moreover have "(2::real) \<le> 2 ^ 54 - 1" by simp
  ultimately have "(2::real) ^ 1024 - 2 ^ 970 = 2 ^ 970 * (2 ^ 54 - 1)"
    by (simp add: algebra_simps)
  moreover have "(1::real) * 2 \<le> 2 ^ 970 * (2 ^ 54 - 1)"
    using \<open>(1::real) \<le> 2 ^ 970\<close> \<open>(2::real) \<le> 2 ^ 54 - 1\<close> by (intro mult_mono) simp_all
  ultimately show ?thesis by linarith
qed

lemma f64_zero [simp]: "\<not> f64_overflow 0"
  using f64_threshold_ge_one by (simp add: f64_overflow_def)

lemma square_no_overflow_imp:
  assumes "\<not> f64_overflow (v * v)"
  shows "\<not> f64_overflow v"
proof
  assume "f64_overflow v"
  then have big: "2 ^ 1024 - 2 ^ 970 \<le> \<bar>v\<bar>" by (simp add: f64_overflow_def)
  then have "1 \<le> \<bar>v\<bar>" using f64_threshold_ge_one by linarith
  then have "\<bar>v\<bar> * 1 \<le> \<bar>v\<bar> * \<bar>v\<bar>" by (intro mult_left_mono) simp_all
  then have "2 ^ 1024 - 2 ^ 970 \<le> \<bar>v * v\<bar>" using big by (simp add: abs_mult)
  then show False using assms by (simp add: f64_overflow_def)
qed

lemma member_le_sum_list_nonneg:
  fixes xs :: "real list"
  assumes "x \<in> set xs" "\<forall>y\<in>set xs. 0 \<le> y"
  shows "x \<le> sum_list xs"
  using assms
proof (induction xs)
  case Nil
  then show ?case by simp
next
  case (Cons a xs)
  have nn: "0 \<le> sum_list xs" using Cons.prems(2) by (intro sum_list_nonneg) simp
  show ?case
  proof (cases "x = a")
    case True
    then show ?thesis using nn by simp
  next
    case False
    then have "x \<le> sum_list xs" using Cons by simp
    moreover have "0 \<le> a" using Cons.prems(2) by simp
    ultimately show ?thesis by simp
  qed
qed

lemma squares_no_overflow:
  fixes xs :: "real list"
  assumes "\<not> f64_overflow (sum_list (map (\<lambda>v. v * v) xs))" "x \<in> set xs"
  shows "\<not> f64_overflow (x * x)" and "\<not> f64_overflow x"
proof -
  have nn: "\<forall>y\<in>set (map (\<lambda>v. v * v) xs). 0 \<le> y" by auto
  have "x * x \<in> set (map (\<lambda>v. v * v) xs)" using assms(2) by auto
  then have le: "x * x \<le> sum_list (map (\<lambda>v. v * v) xs)"
    using nn by (rule member_le_sum_list_nonneg)
  have "0 \<le> sum_list (map (\<lambda>v. v * v) xs)" by (intro sum_list_nonneg) auto
  then have "sum_list (map (\<lambda>v. v * v) xs) < 2 ^ 1024 - 2 ^ 970"
    using assms(1) by (simp add: f64_overflow_def)
  then have "\<bar>x * x\<bar> < 2 ^ 1024 - 2 ^ 970" using le by (simp add: abs_mult)
  then show "\<not> f64_overflow (x * x)" by (simp add: f64_overflow_def)
  then show "\<not> f64_overflow x" by (rule square_no_overflow_imp)
qed

lemma elems_map_arr: "elems (map_arr f a) = map f (elems a)"
  by (cases a) (simp_all add: map_concat)

lemma mse_steps:
  assumes "\<not> f64_overflow (sum_list (map (\<lambda>v. v * v) (elems d)))"
  shows "f64_results d = Inr d" and "np_square d = Inr (map_arr (\<lambda>v. v * v) d)"
  using squares_no_overflow[OF assms]
  by (auto simp: f64_results_def np_square_def list_all_iff elems_map_arr)

lemma mse_value:
  assumes "rect (Arr2 n p)" "rect (Arr2 n t)" "length p = m" "length t = m" "0 < m" "0 < n"
  shows "sum_list (elems (map_arr (\<lambda>v. v * v) (Arr2 n (map2 (map2 (\<lambda>a b. a - b)) p t))))
           = (\<Sum>i<m. \<Sum>j<n. (p ! i ! j - t ! i ! j)\<^sup>2)"
    and "length (elems (map_arr (\<lambda>v. v * v) (Arr2 n (map2 (map2 (\<lambda>a b. a - b)) p t)))) = m * n"
proof -
  have a: "list_all (\<lambda>r. length r = n) p" "list_all (\<lambda>r. length r = n) t"
    using assms by simp_all
  note pr = sq_diff_rows_props[OF a assms(3,4)]
  have eq: "elems (map_arr (\<lambda>v. v * v) (Arr2 n (map2 (map2 (\<lambda>a b. a - b)) p t)))
            = concat (sq_diff_rows p t)"
    by (simp add: sq_diff_rows_def)
  show "length (elems (map_arr (\<lambda>v. v * v) (Arr2 n (map2 (map2 (\<lambda>a b. a - b)) p t)))) = m * n"
    unfolding eq using length_concat_rect[OF pr(2)] pr(1) by simp
  have "sum_list (concat (sq_diff_rows p t)) = (\<Sum>i<m. \<Sum>j<n. sq_diff_rows p t ! i ! j)"
    using sum_list_concat_nth[OF pr(2)] pr(1) by simp
  also have "\<dots> = (\<Sum>i<m. \<Sum>j<n. (p ! i ! j - t ! i ! j)\<^sup>2)"
    by (intro sum.cong) (simp_all add: pr(3))
  finally show "sum_list (elems (map_arr (\<lambda>v. v * v) (Arr2 n (map2 (map2 (\<lambda>a b. a - b)) p t))))
           = (\<Sum>i<m. \<Sum>j<n. (p ! i ! j - t ! i ! j)\<^sup>2)"
    unfolding eq .
qed

lemma mse_same_shape:
  assumes "rect (Arr2 n p)" "rect (Arr2 n t)" "length p = m" "length t = m" "0 < m" "0 < n"
    and "\<not> f64_overflow (\<Sum>i<m. \<Sum>j<n. (p ! i ! j - t ! i ! j)\<^sup>2)"
  shows "mean_squared_error (Arr2 n p) (Arr2 n t) False
           = Inr (Error_only (Scalar (Some
               ((\<Sum>i<m. \<Sum>j<n. (p ! i ! j - t ! i ! j)\<^sup>2) / real (m * n)))))"
    and "mean_squared_error (Arr2 n p) (Arr2 n t) True
           = Inr (Error_and_deriv (Scalar (Some
               ((\<Sum>i<m. \<Sum>j<n. (p ! i ! j - t ! i ! j)\<^sup>2) / real (m * n))))
               (Arr2 n (map2 (map2 (\<lambda>a b. a - b)) p t)))"
proof -
  let ?d = "Arr2 n (map2 (map2 (\<lambda>a b. a - b)) p t)"
  let ?sq = "map_arr (\<lambda>v. v * v) ?d"
  note val = mse_value[OF assms(1-6)]
  have ew: "elementwise (\<lambda>a b. a - b) (Arr2 n p) (Arr2 n t) = Inr ?d"
    using assms by (intro elementwise_same_shape) simp_all
  have no: "\<not> f64_overflow (sum_list (map (\<lambda>v. v * v) (elems ?d)))"
    unfolding val(1)[unfolded elems_map_arr] by (rule assms(7))
  note st = mse_steps[OF no]
  have sub: "np_subtract (Arr2 n p) (Arr2 n t) = Inr ?d"
    unfolding np_subtract_def ew and_then_Inr by (rule st(1))
  have ne: "elems ?sq \<noteq> []"
    using val(2) assms(5,6) by (metis length_0_conv mult_is_0 less_numeral_extra(3))
  have mean: "np_mean ?sq = Some ((\<Sum>i<m. \<Sum>j<n. (p ! i ! j - t ! i ! j)\<^sup>2) / real (m * n))"
    unfolding np_mean_def using ne assms(7) val by (simp del: elems.simps map_arr.simps of_nat_mult)
  show "mean_squared_error (Arr2 n p) (Arr2 n t) False
           = Inr (Error_only (Scalar (Some
               ((\<Sum>i<m. \<Sum>j<n. (p ! i ! j - t ! i ! j)\<^sup>2) / real (m * n)))))"
    unfolding mean_squared_error_def Let_def
    by (simp add: promote_target_def sub st(2) mean del: map_arr.simps of_nat_mult)
  show "mean_squared_error (Arr2 n p) (Arr2 n t) True
           = Inr (Error_and_deriv (Scalar (Some
               ((\<Sum>i<m. \<Sum>j<n. (p ! i ! j - t ! i ! j)\<^sup>2) / real (m * n))))
               (Arr2 n (map2 (map2 (\<lambda>a b. a - b)) p t)))"
    unfolding mean_squared_error_def Let_def
    by (simp add: promote_target_def sub st(2) mean del: map_arr.simps of_nat_mult)
qed

lemma rect_map: "rect (Arr2 n rows) \<Longrightarrow> rect (Arr2 n (map (map f) rows))"
  by (simp add: list_all_iff)

lemma rect_map2:
  assumes "rect (Arr2 n rows)" "rect (Arr2 n rows')"
  shows "rect (Arr2 n (map2 (map2 f) rows rows'))"
  unfolding rect.simps list_all_iff
proof
  fix r assume "r \<in> set (map2 (map2 f) rows rows')"
  then obtain a b where ab: "(a, b) \<in> set (zip rows rows')" "r = map2 f a b"
    by auto
  from ab(1) have "a \<in> set rows" "b \<in> set rows'"
    by (auto dest: set_zip_leftD set_zip_rightD)
  then show "length r = n" using assms ab(2) by (simp add: list_all_iff)
qed

lemma map2_right_map: "map2 F xs (map g ys) = map2 (\<lambda>x y. F x (g y)) xs ys"
  by (simp add: map_zip_map2 case_prod_unfold)

lemma map2_left_map: "map2 F (map g xs) ys = map2 (\<lambda>x y. F (g x) y) xs ys"
  by (simp add: map_zip_map case_prod_unfold)

lemma map_map2: "map g (map2 F xs ys) = map2 (\<lambda>x y. g (F x y)) xs ys"
  by (simp add: case_prod_unfold)

lemma map2_map2_same: "map2 F (map2 G xs ys) (map2 H xs ys) = map2 (\<lambda>x y. F (G x y) (H x y)) xs ys"
  by (simp add: zip_map_map zip_same_conv_map case_prod_unfold)

lemma rows_right_map:
  "map2 (map2 F) xs (map (map g) ys) = map2 (map2 (\<lambda>x y. F x (g y))) xs ys"
  by (induction xs ys rule: list_induct2') (simp_all add: map2_right_map)

lemma rows_left_map:
  "map2 (map2 F) (map (map g) xs) ys = map2 (map2 (\<lambda>x y. F (g x) y)) xs ys"
  by (induction xs ys rule: list_induct2') (simp_all add: map2_left_map)

lemma rows_map_map2:
  "map (map g) (map2 (map2 F) xs ys) = map2 (map2 (\<lambda>x y. g (F x y))) xs ys"
  by (induction xs ys rule: list_induct2') (auto simp: case_prod_unfold)

lemma rows_map2_same:
  "map2 (map2 F) (map2 (map2 G) xs ys) (map2 (map2 H) xs ys)
   = map2 (map2 (\<lambda>x y. F (G x y) (H x y))) xs ys"
  by (induction xs ys rule: list_induct2') (simp_all add: map2_map2_same)

lemma ce_rows:
  "map (map uminus)
     (map2 (map2 (\<lambda>a b. a + b))
        (map2 (map2 (\<lambda>a b. a * b)) t (map (map ln) c))
        (map2 (map2 (\<lambda>a b. a * b)) (map (map (\<lambda>v. 1 - v)) t) (map (map ln) (map (map (\<lambda>v. 1 - v)) c))))
   = map2 (map2 (\<lambda>y x. - (y * ln x + (1 - y) * ln (1 - x)))) t c"
  by (simp only: rows_right_map rows_left_map rows_map_map2 rows_map2_same)

lemma ce_deriv_rows:
  "map2 (map2 (\<lambda>a b. a + b))
     (map (map uminus) (map2 (map2 (\<lambda>x y. x / y)) t c))
     (map2 (map2 (\<lambda>x y. x / y)) (map (map (\<lambda>v. 1 - v)) t) (map (map (\<lambda>v. 1 - v)) c))
   = map2 (map2 (\<lambda>y x. - (y / x) + (1 - y) / (1 - x))) t c"
  by (simp only: rows_right_map rows_left_map rows_map_map2 rows_map2_same)

lemma eps_pos: "0 < eps" and eps_lt: "eps < clip_hi" and clip_hi_lt: "clip_hi < 1"
  by (simp_all add: eps_def clip_hi_def)

lemma clamp_bounds: "eps \<le> clamp v \<and> clamp v \<le> clip_hi"
  using eps_lt by (simp add: clamp_def min_def max_def)

lemma clamp_pos: "0 < clamp v" "0 < 1 - clamp v" "clamp v \<noteq> 0" "1 - clamp v \<noteq> 0" "clamp v < 1" "clamp v \<noteq> 1"
  using clamp_bounds[of v] eps_pos clip_hi_lt by linarith+

lemma np_clip_rows: "np_clip (Arr2 n p) eps clip_hi = Arr2 n (map (map clamp) p)"
  by (simp add: np_clip_def clamp_def[abs_def])

lemma np_clip_vec: "np_clip (Arr1 p) eps clip_hi = Arr1 (map clamp p)"
  by (simp add: np_clip_def clamp_def[abs_def])

lemma np_log_clip: "np_log (np_clip a eps clip_hi) = Inr (map_arr ln (np_clip a eps clip_hi))"
  by (cases a) (auto simp: np_log_def np_clip_rows np_clip_vec list_all_iff clamp_pos)

lemma np_log_one_minus_clip:
  "np_log (one_minus (np_clip a eps clip_hi)) = Inr (map_arr ln (one_minus (np_clip a eps clip_hi)))"
  by (cases a) (auto simp: np_log_def one_minus_def np_clip_rows np_clip_vec list_all_iff clamp_pos)

lemma abs_ln_le_inverse:
  fixes x :: real
  assumes "0 < x" "x \<le> 1"
  shows "\<bar>ln x\<bar> \<le> 1 / x"
proof -
  have "ln x \<le> 0" using assms by simp
  moreover have "ln (1 / x) \<le> 1 / x - 1" using assms by (intro ln_le_minus_one) simp
  moreover have "ln (1 / x) = - ln x" using assms by (simp add: ln_div)
  ultimately show ?thesis by linarith
qed

lemma log_bounds_fit: "(10::real) ^ 15 \<le> 2 ^ 50" "1 / (9 / 2 ^ 53) \<le> (2::real) ^ 50"
  by simp_all

lemma inverse_clamp: "1 / clamp v \<le> 2 ^ 50"
proof -
  have "1 / clamp v \<le> 1 / eps"
    using clamp_bounds[of v] eps_pos by (intro divide_left_mono) simp_all
  also have "\<dots> = 10 ^ 15" by (simp add: eps_def)
  finally show ?thesis using log_bounds_fit(1) by (rule order_trans)
qed

lemma inverse_one_minus_clamp: "1 / (1 - clamp v) \<le> 2 ^ 50"
proof -
  have c: "9 / 2 ^ 53 \<le> 1 - clamp v"
    using clamp_bounds[of v] by (simp add: clip_hi_def)
  have "1 / (1 - clamp v) \<le> 1 / (9 / 2 ^ 53)"
    using c by (intro divide_left_mono) simp_all
  then show ?thesis using log_bounds_fit(2) by (rule order_trans)
qed

lemma abs_ln_clamp: "\<bar>ln (clamp v)\<bar> \<le> 2 ^ 50"
proof -
  have "\<bar>ln (clamp v)\<bar> \<le> 1 / clamp v"
    using clamp_pos[of v] by (intro abs_ln_le_inverse) simp_all
  then show ?thesis using inverse_clamp[of v] by (rule order_trans)
qed

lemma abs_ln_one_minus_clamp: "\<bar>ln (1 - clamp v)\<bar> \<le> 2 ^ 50"
proof -
  have "\<bar>ln (1 - clamp v)\<bar> \<le> 1 / (1 - clamp v)"
    using clamp_pos[of v] by (intro abs_ln_le_inverse) simp_all
  then show ?thesis using inverse_one_minus_clamp[of v] by (rule order_trans)
qed

lemma powers_fit:
  "(2::real) ^ 900 * 2 ^ 50 \<le> 2 ^ 953"
  "(2::real) ^ 901 * 2 ^ 50 \<le> 2 ^ 953"
  "(2::real) ^ 900 * 2 ^ 50 + 2 ^ 901 * 2 ^ 50 \<le> 2 ^ 953"
  "1 + (2::real) ^ 900 \<le> 2 ^ 901"
  by simp_all

lemma below_threshold: "(2::real) ^ 953 < 2 ^ 1024 - 2 ^ 970"
  by simp

lemma small_no_overflow:
  assumes "\<bar>v\<bar> \<le> 2 ^ 953"
  shows "\<not> f64_overflow v"
  unfolding f64_overflow_def not_le using assms below_threshold by (rule le_less_trans)

lemma sum_bound:
  fixes x y a b c :: real
  assumes "\<bar>x\<bar> \<le> a" "\<bar>y\<bar> \<le> b" "a + b \<le> c"
  shows "\<bar>x + y\<bar> \<le> c"
  using assms by linarith

lemma one_minus_bound:
  fixes v a b :: real
  assumes "\<bar>v\<bar> \<le> a" "1 + a \<le> b"
  shows "\<bar>1 - v\<bar> \<le> b"
  using assms by linarith

lemma weaken_bound:
  fixes a b :: real
  assumes "\<forall>r\<in>set A. \<forall>v\<in>set r. \<bar>v\<bar> \<le> a" "a \<le> b"
  shows "\<forall>r\<in>set A. \<forall>v\<in>set r. \<bar>v\<bar> \<le> b"
  using assms by (meson order_trans)

lemma entries_map:
  assumes "\<forall>r\<in>set A. \<forall>v\<in>set r. P v" "\<And>v. P v \<Longrightarrow> Q (f v)"
  shows "\<forall>r\<in>set (map (map f) A). \<forall>v\<in>set r. Q v"
  using assms by auto

lemma entries_map2:
  assumes "\<forall>r\<in>set A. \<forall>v\<in>set r. P v" "\<forall>r\<in>set B. \<forall>v\<in>set r. Q v"
    "\<And>x y. P x \<Longrightarrow> Q y \<Longrightarrow> R (f x y)"
  shows "\<forall>r\<in>set (map2 (map2 f) A B). \<forall>v\<in>set r. R v"
proof (intro ballI)
  fix r v assume "r \<in> set (map2 (map2 f) A B)" "v \<in> set r"
  then obtain a b where ab: "(a, b) \<in> set (zip A B)" "v \<in> set (map2 f a b)" by auto
  then obtain x y where xy: "(x, y) \<in> set (zip a b)" "v = f x y" by auto
  have "a \<in> set A" "b \<in> set B" using ab(1) by (auto dest: set_zip_leftD set_zip_rightD)
  moreover have "x \<in> set a" "y \<in> set b" using xy(1) by (auto dest: set_zip_leftD set_zip_rightD)
  ultimately have "P x" "Q y" using assms(1,2) by auto
  then show "R v" unfolding xy(2) by (rule assms(3))
qed

lemma f64_results_small:
  assumes "\<forall>r\<in>set A. \<forall>v\<in>set r. \<bar>v\<bar> \<le> 2 ^ 953"
  shows "f64_results (Arr2 n A) = Inr (Arr2 n A)"
  using assms by (auto simp: f64_results_def list_all_iff small_no_overflow)

lemma np_multiply_same_shape:
  assumes "rect (Arr2 n A)" "rect (Arr2 n B)" "length A = length B"
    "\<forall>r\<in>set (map2 (map2 (\<lambda>x y. x * y)) A B). \<forall>v\<in>set r. \<bar>v\<bar> \<le> 2 ^ 953"
  shows "np_multiply (Arr2 n A) (Arr2 n B) = Inr (Arr2 n (map2 (map2 (\<lambda>x y. x * y)) A B))"
  unfolding np_multiply_def elementwise_same_shape[OF assms(1-3)] and_then_Inr
  by (rule f64_results_small[OF assms(4)])

lemma np_add_same_shape:
  assumes "rect (Arr2 n A)" "rect (Arr2 n B)" "length A = length B"
    "\<forall>r\<in>set (map2 (map2 (\<lambda>x y. x + y)) A B). \<forall>v\<in>set r. \<bar>v\<bar> \<le> 2 ^ 953"
  shows "np_add (Arr2 n A) (Arr2 n B) = Inr (Arr2 n (map2 (map2 (\<lambda>x y. x + y)) A B))"
  unfolding np_add_def elementwise_same_shape[OF assms(1-3)] and_then_Inr
  by (rule f64_results_small[OF assms(4)])

lemma np_divide_same_shape:
  assumes "rect (Arr2 n A)" "rect (Arr2 n B)" "length A = length B"
    "\<forall>r\<in>set B. \<forall>v\<in>set r. v \<noteq> 0"
    "\<forall>r\<in>set (map2 (map2 (\<lambda>x y. x / y)) A B). \<forall>v\<in>set r. \<bar>v\<bar> \<le> 2 ^ 953"
  shows "np_divide (Arr2 n A) (Arr2 n B) = Inr (Arr2 n (map2 (map2 (\<lambda>x y. x / y)) A B))"
proof -
  have nz: "list_all (\<lambda>v. v \<noteq> 0) (elems (Arr2 n B))"
    using assms(4) by (auto simp: list_all_iff)
  show ?thesis
    unfolding np_divide_def elementwise_same_shape[OF assms(1-3)]
    using nz f64_results_small[OF assms(5), of n] by (simp del: elems.simps)
qed

lemma product_bound:
  fixes x y a b :: real
  assumes "\<bar>x\<bar> \<le> a" "\<bar>y\<bar> \<le> b"
  shows "\<bar>x * y\<bar> \<le> a * b"
proof -
  have "\<bar>x\<bar> * \<bar>y\<bar> \<le> a * b" using assms by (intro mult_mono) simp_all
  then show ?thesis by (simp add: abs_mult)
qed

lemma quotient_bound:
  fixes x y a b :: real
  assumes "\<bar>x\<bar> \<le> a" "0 < y" "1 / y \<le> b"
  shows "\<bar>x / y\<bar> \<le> a * b"
proof -
  have "\<bar>1 / y\<bar> \<le> b" using assms by simp
  then have "\<bar>x * (1 / y)\<bar> \<le> a * b" using assms(1) by (intro product_bound)
  then show ?thesis by simp
qed

section \<open>Facts about the training loop\<close>

lemma py_range_pos:
  assumes "0 < k"
  shows "py_range 0 (int m) (int k) = Inr (map (\<lambda>i. int (i * k)) [0..<(m + k - 1) div k])"
proof -
  have "int m - 0 + int k - 1 = int (m + k - 1)" using assms by linarith
  then have "(int m - 0 + int k - 1) div int k = int ((m + k - 1) div k)"
    by (simp only: zdiv_int)
  then show ?thesis using assms by (simp add: py_range_def)
qed

lemma py_slice_nat: "py_slice xs (int a) (int a + int k) = take k (drop a xs)"
proof -
  have sb: "slice_bound (int a) (length xs) = min a (length xs)"
    "slice_bound (int a + int k) (length xs) = min (a + k) (length xs)"
    by (simp_all add: slice_bound_def nat_add_distrib)
  show ?thesis
  proof (cases "a < length xs")
    case True
    then have "min (a + k) (length xs) - min a (length xs) = min k (length xs - a)" by auto
    moreover have "take (min k (length xs - a)) (drop a xs) = take k (drop a xs)"
      by (simp add: min_def)
    ultimately show ?thesis using True by (simp add: py_slice_def sb Let_def)
  next
    case False
    then show ?thesis by (simp add: py_slice_def sb Let_def)
  qed
qed

lemma axis0_slice0: "axis0 (slice0 a (int s) (int s + int k)) = take k (drop s (axis0 a))"
  by (cases a) (simp_all add: py_slice_nat take_map drop_map)

lemma axis0_slice0_mult:
  "axis0 (slice0 a (int i * int k) (int i * int k + int k)) = take k (drop (i * k) (axis0 a))"
  using axis0_slice0[of a "i * k" k] by simp

lemma shape0_axis0: "shape0 a = length (axis0 a)"
  by (cases a) simp_all

lemma concat_chunks: "concat (map (\<lambda>i. take k (drop (i * k) xs)) [0..<c]) = take (c * k) xs"
proof (induction c)
  case 0
  then show ?case by simp
next
  case (Suc c)
  have "take (c * k) xs @ take k (drop (c * k) xs) = take (c * k + k) xs"
    by (simp add: take_add)
  then show ?case using Suc by (simp add: add.commute)
qed

lemma ceil_div_covers:
  fixes m k :: nat
  assumes "0 < k"
  shows "m \<le> ((m + k - 1) div k) * k"
proof -
  have "(m + k - 1) mod k < k" using assms by simp
  moreover have "(m + k - 1) div k * k + (m + k - 1) mod k = m + k - 1" by simp
  ultimately show ?thesis by linarith
qed

lemma ceil_div_eq:
  assumes "0 < k"
  shows "\<lceil>real m / real k\<rceil> = int ((m + k - 1) div k)"
proof (rule ceiling_unique)
  let ?c = "(m + k - 1) div k"
  have up: "m \<le> ?c * k" using assms by (rule ceil_div_covers)
  have "?c * k \<le> m + k - 1" by simp
  then have lo: "?c * k < m + k" using assms by linarith
  have "real m \<le> real (?c * k)" using up by (simp only: of_nat_le_iff)
  then show "real m / real k \<le> of_int (int ?c)"
    using assms by (simp add: pos_divide_le_eq)
  have "real (?c * k) < real (m + k)" using lo by (simp only: of_nat_less_iff)
  then have "(real ?c - 1) * real k < real m" by (simp add: algebra_simps)
  then show "of_int (int ?c) - 1 < real m / real k"
    using assms by (simp add: pos_less_divide_eq)
qed

lemma ceil_div_cases:
  fixes m k :: nat
  assumes "0 < k"
  shows "(m + k - 1) div k = (if m mod k = 0 then m div k else Suc (m div k))"
proof -
  have m: "m = k * (m div k) + m mod k" by simp
  have r: "m mod k < k" using assms by simp
  show ?thesis
  proof (cases "m mod k = 0")
    case True
    have "k * (m div k) \<le> m + k - 1" using m True assms by linarith
    moreover have "m + k - 1 < k * Suc (m div k)" using m True assms by (simp add: algebra_simps)
    ultimately show ?thesis using True by (simp add: div_nat_eqI)
  next
    case False
    have "k * Suc (m div k) \<le> m + k - 1"
    proof -
      have "k * Suc (m div k) = k * (m div k) + k" by simp
      also have "\<dots> \<le> k * (m div k) + m mod k + k - 1" using False by linarith
      also have "\<dots> = m + k - 1" using m by simp
      finally show ?thesis .
    qed
    moreover have "m + k - 1 < k * Suc (Suc (m div k))"
    proof -
      have "m + k - 1 < k * (m div k) + k + k" using r m by linarith
      then show ?thesis by simp
    qed
    ultimately show ?thesis using False by (simp add: div_nat_eqI)
  qed
qed

lemma batch_size_nat:
  fixes m k :: nat
  assumes "0 < k" "i < (m + k - 1) div k"
  shows "min k (m - i * k) = (if Suc i < (m + k - 1) div k \<or> m mod k = 0 then k else m mod k)"
proof -
  let ?c = "(m + k - 1) div k"
  have c: "?c = (if m mod k = 0 then m div k else Suc (m div k))"
    using assms(1) by (rule ceil_div_cases)
  have m: "m = (m div k) * k + m mod k" by simp
  have r: "m mod k < k" using assms by simp
  show ?thesis
  proof (cases "Suc i < ?c")
    case True
    then have "Suc i \<le> m div k" using c by (auto split: if_splits)
    then have "Suc i * k \<le> (m div k) * k" by (rule mult_le_mono1)
    also have "\<dots> \<le> m" by simp
    finally have "i * k + k \<le> m" by simp
    then show ?thesis using True by simp
  next
    case False
    then have i: "Suc i = ?c" using assms(2) by simp
    show ?thesis
    proof (cases "m mod k = 0")
      case True
      then have "Suc i = m div k" using i c by simp
      then have "Suc i * k = m" using True m by simp
      then have "i * k + k = m" by simp
      then show ?thesis using True by auto
    next
      case F: False
      then have "i = m div k" using i c by simp
      then have "m - i * k = m mod k" using m by (metis add_diff_cancel_left')
      then show ?thesis using F False r by simp
    qed
  qed
qed

lemma process_step_failed:
  "foldl (\<lambda>(r, w) (batch_X, batch_y).
            case r of Inl e \<Rightarrow> (Inl e, w) | Inr u \<Rightarrow> update_batch m batch_X batch_y w)
     (Inl e, w) batches = (Inl e, w)"
  by (induction batches) (simp_all add: case_prod_unfold)

lemma run_batches_in_order: "run_batches m batches w = process_in_order m batches w"
proof (induction batches arbitrary: w)
  case Nil
  then show ?case by (simp add: process_in_order_def)
next
  case (Cons b batches)
  obtain batch_X batch_y where b: "b = (batch_X, batch_y)" by (cases b)
  obtain r w' where u: "update_batch m batch_X batch_y w = (r, w')"
    by (cases "update_batch m batch_X batch_y w")
  show ?case
  proof (cases r)
    case (Inl e)
    then show ?thesis
      using u b by (simp add: process_in_order_def process_step_failed)
  next
    case (Inr v)
    then show ?thesis
      using u b Cons.IH[of w'] by (simp add: process_in_order_def)
  qed
qed

lemma epoch_step_failed:
  "foldl (\<lambda>(r, w) epoch.
            case r of
              Inl e \<Rightarrow> (Inl e, w)
            | Inr u \<Rightarrow>
               (case process_in_order m batches w of
                  (Inl e, w1) \<Rightarrow> (Inl e, w1)
                | (Inr u', w1) \<Rightarrow>
                   if verbose m \<or> epoch = epochs - 1 then report m X y w1 else (Inr (), w1)))
     (Inl e, w) es = (Inl e, w)"
  by (induction es) simp_all

lemma epoch_loop_over_batches:
  assumes "epoch_batches X y batch_size = Inr batches"
  shows "epoch_loop m X y epochs batch_size es w
         = foldl (\<lambda>(r, w) epoch.
                    case r of
                      Inl e \<Rightarrow> (Inl e, w)
                    | Inr u \<Rightarrow>
                       (case process_in_order m batches w of
                          (Inl e, w1) \<Rightarrow> (Inl e, w1)
                        | (Inr u', w1) \<Rightarrow>
                           if verbose m \<or> epoch = epochs - 1 then report m X y w1
                           else (Inr (), w1)))
             (Inr (), w) es"
proof (induction es arbitrary: w)
  case Nil
  then show ?case by simp
next
  case (Cons epoch es)
  obtain r w1 where p: "process_in_order m batches w = (r, w1)"
    by (cases "process_in_order m batches w")
  show ?case
  proof (cases r)
    case (Inl e)
    then show ?thesis
      using p assms by (simp add: run_batches_in_order epoch_step_failed)
  next
    case (Inr u)
    show ?thesis
    proof (cases "verbose m \<or> epoch = epochs - 1")
      case False
      then show ?thesis
        using p Inr assms Cons.IH[of w1] by (simp add: run_batches_in_order)
    next
      case True
      obtain r2 w2 where rp: "report m X y w1 = (r2, w2)" by (cases "report m X y w1")
      show ?thesis
      proof (cases r2)
        case (Inl e)
        then show ?thesis
          using p Inr True rp assms by (auto simp: run_batches_in_order epoch_step_failed)
      next
        case r2: (Inr u2)
        then show ?thesis
          using p Inr True rp assms Cons.IH[of w2] by (auto simp: run_batches_in_order)
      qed
    qed
  qed
qed

lemma fit_over_batches:
  assumes "epoch_batches X y (fit_batch_size batch_size X) = Inr batches"
  shows "fit m X y epochs batch_size w = epochs_over_batches m X y epochs batches w"
  unfolding fit_def epochs_over_batches_def
  by (rule epoch_loop_over_batches[OF assms])

section \<open>Facts about argmax and the traced layers\<close>

lemma argmax_less: "r \<noteq> [] \<Longrightarrow> argmax r < length r"
  by (induction r rule: argmax.induct) (simp_all add: Let_def)

lemma argmax_is_max: "r \<noteq> [] \<Longrightarrow> r ! argmax r = Max (set r)"
proof (induction r rule: argmax.induct)
  case 1
  then show ?case by simp
next
  case (2 x)
  then show ?case by simp
next
  case (3 x y ys)
  let ?j = "argmax (y # ys)"
  have IH: "(y # ys) ! ?j = Max (set (y # ys))" using 3 by simp
  have M: "Max (set (x # y # ys)) = max x (Max (set (y # ys)))"
    by simp
  show ?case
  proof (cases "(y # ys) ! ?j \<le> x")
    case True
    then have am: "argmax (x # y # ys) = 0" by (simp add: Let_def)
    from True have "Max (set (y # ys)) \<le> x" unfolding IH .
    then have "max x (Max (set (y # ys))) = x" by (rule max_absorb1)
    then show ?thesis unfolding M am by simp
  next
    case False
    then have am: "argmax (x # y # ys) = Suc ?j" by (simp add: Let_def)
    from False have "x < Max (set (y # ys))" unfolding IH by (simp only: not_le)
    then have "x \<le> Max (set (y # ys))" by (rule less_imp_le)
    then have "max x (Max (set (y # ys))) = Max (set (y # ys))" by (rule max_absorb2)
    then show ?thesis unfolding M am using IH by simp
  qed
qed

lemma argmax_first: "j < argmax r \<Longrightarrow> r ! j < r ! argmax r"
proof (induction r arbitrary: j rule: argmax.induct)
  case 1
  then show ?case by simp
next
  case (2 x)
  then show ?case by simp
next
  case (3 x y ys)
  let ?k = "argmax (y # ys)"
  from "3.prems" have nle: "\<not> (y # ys) ! ?k \<le> x" and am: "argmax (x # y # ys) = Suc ?k"
    by (auto simp: Let_def split: if_splits)
  show ?case
  proof (cases j)
    case 0
    then show ?thesis using nle am by simp
  next
    case (Suc i)
    then have "i < ?k" using "3.prems" am by simp
    then have "(y # ys) ! i < (y # ys) ! ?k" by (rule "3.IH")
    then show ?thesis using Suc am by simp
  qed
qed

lemma enumerate_snoc: "enumerate 0 (xs @ [x]) = enumerate 0 xs @ [(length xs, x)]"
  by (simp add: enumerate_append_eq)

lemma backward_loop_traced:
  "k \<le> length ls \<Longrightarrow>
   backward_loop (rev (map (\<lambda>(i, l). traced (Suc i) l) (enumerate 0 (take k ls)))) g opt (w, tr)
   = (backward_loop (rev (take k ls)) g opt w, tr @ reverse_order_calls k ls g opt w)"
proof (induction k arbitrary: g w tr)
  case 0
  then show ?case by simp
next
  case (Suc k)
  then have k: "k < length ls" by simp
  have tk: "take (Suc k) ls = take k ls @ [ls ! k]"
    using k by (simp add: take_Suc_conv_app_nth)
  have len: "length (take k ls) = k" using k by simp
  obtain g' w' where bp: "back_propogate (ls ! k) g w = (g', w')"
    by (cases "back_propogate (ls ! k) g w")
  have IH: "backward_loop (rev (map (\<lambda>(i, l). traced (Suc i) l) (enumerate 0 (take k ls)))) g' opt
              (optimize (ls ! k) opt w', (tr @ [Back_propogate (Suc k) g]) @ [Optimize (Suc k) opt])
            = (backward_loop (rev (take k ls)) g' opt (optimize (ls ! k) opt w'),
               ((tr @ [Back_propogate (Suc k) g]) @ [Optimize (Suc k) opt])
                 @ reverse_order_calls k ls g' opt (optimize (ls ! k) opt w'))"
    using Suc.IH[of g' "optimize (ls ! k) opt w'"] k by simp
  show ?case
    unfolding tk enumerate_snoc len
    using IH by (simp add: traced_def bp)
qed

section \<open>Facts about the example models\<close>

lemmas model_defs = zero_layer_model_def compile_def init_def getattr_losses_def
  losses_namespace_def add_def two_layer_model_def weight_layer_def compiled_two_layer_model_def

lemma zero_layers: "layers zero_layer_model = []"
  by (simp add: model_defs)

lemma example_range: "(2::real) ^ 20 \<le> 2 ^ 953" "(1::real) \<le> 2 ^ 900" "(0::real) \<le> 2 ^ 900"
  by simp_all

lemma f64_small: "\<bar>v\<bar> \<le> 2 ^ 20 \<Longrightarrow> f64_overflow v = False"
  using small_no_overflow[of v] example_range(1) by simp

lemma wrapped_square: "wrap_int64 (wrap_int64 3037000500 * wrap_int64 3037000500)
  = - 9223372036709301616"
  by (simp add: wrap_int64_def)

lemma clip_at_bounds:
  "min (max 0 eps) clip_hi = eps" "min (max 1 eps) clip_hi = clip_hi"
  using eps_pos eps_lt clip_hi_lt by (simp_all add: max_def min_def)

lemma ln_eps_le: "ln eps \<le> - 2"
proof -
  have "exp (2::real) = exp 1 * exp 1" by (simp add: exp_add[symmetric])
  also have "\<dots> \<le> 3 * 3" by (intro mult_mono exp_le) simp_all
  finally have "exp (2::real) \<le> 10 ^ 15" by simp
  then have "2 \<le> ln ((10::real) ^ 15)" by (simp add: ln_ge_iff)
  moreover have "ln eps = - ln ((10::real) ^ 15)"
    by (simp add: eps_def ln_div)
  ultimately show ?thesis by linarith
qed

lemma huge_target_overflows: "f64_overflow (2 ^ 1023 * ln eps)"
proof -
  have "(2::real) ^ 1024 - 2 ^ 970 \<le> 2 ^ 1023 * 2" by simp
  also have "\<dots> \<le> 2 ^ 1023 * \<bar>ln eps\<bar>"
    using ln_eps_le by (intro mult_left_mono) simp_all
  finally show ?thesis by (simp add: f64_overflow_def abs_mult)
qed

lemma small_numbers:
  "f64_overflow 0 = False" "f64_overflow 1 = False" "f64_overflow 2 = False"
  "f64_overflow 4 = False" "f64_overflow 6 = False"
  by (simp_all add: f64_small)

lemma example_batches:
  "epoch_batches (Arr2 1 [[1], [2], [3], [4], [5]]) (Arr1 [1, 2, 3, 4, 5]) 2
   = Inr [(Arr2 1 [[1], [2]], Arr1 [1, 2]), (Arr2 1 [[3], [4]], Arr1 [3, 4]), (Arr2 1 [[5]], Arr1 [5])]"
  by (simp add: epoch_batches_def py_range_def py_slice_def slice_bound_def upt_rec Let_def)

lemma compiled_two_layers:
  "layers compiled_two_layer_model = [weight_layer, weight_layer]"
  "loss compiled_two_layer_model = Some Function_mean_squared_error"
  "optimizer compiled_two_layer_model = Some 1"
  "verbose compiled_two_layer_model = False"
  by (simp_all add: compiled_two_layer_model_def compile_def two_layer_model_def add_def init_def
      getattr_losses_def losses_namespace_def)

lemma weight_layer_methods:
  "forward weight_layer Z rd w = ((map_arr (\<lambda>v. w * v) Z, map_arr (\<lambda>v. w) Z), w)"
  "back_propogate weight_layer g w = (map_arr (\<lambda>v. w * v) g, w)"
  "optimize weight_layer lr w = w - lr"
  by (simp_all add: weight_layer_def)

lemma example_update_1:
  "update_batch compiled_two_layer_model (Arr2 1 [[1], [2]]) (Arr1 [1, 2]) 10 = (Inr (), 8)"
  by (simp add: update_batch_def forwardpass_def compiled_two_layers weight_layer_methods
      back_propogate_and_update_def mean_squared_error_def promote_target_def np_subtract_def
      elementwise2_def bdim_def stretch_def f64_results_def np_square_def np_mean_def f64_small)

lemmas example_simps = update_batch_def forwardpass_def compiled_two_layers weight_layer_methods
  back_propogate_and_update_def mean_squared_error_def promote_target_def np_subtract_def
  elementwise2_def bdim_def stretch_def f64_results_def np_square_def np_mean_def f64_small

lemma example_update_2:
  "update_batch compiled_two_layer_model (Arr2 1 [[3], [4]]) (Arr1 [3, 4]) 8 = (Inr (), 6)"
  by (simp add: example_simps)

lemma example_update_3:
  "update_batch compiled_two_layer_model (Arr2 1 [[5]]) (Arr1 [5]) 6 = (Inr (), 4)"
  by (simp add: example_simps)

lemma example_report:
  "report compiled_two_layer_model (Arr2 1 [[1], [2], [3], [4], [5]]) (Arr1 [1, 2, 3, 4, 5]) 4
   = (Inr (), 4)"
  by (simp add: report_def predict_def accuracy_def count_nonzero_def Let_def example_simps)

lemma example_fit:
  "fit compiled_two_layer_model (Arr2 1 [[1], [2], [3], [4], [5]]) (Arr1 [1, 2, 3, 4, 5]) 1
     (Some 2) 10 = (Inr (), 4)"
  by (simp add: fit_def fit_batch_size_def upto.simps example_batches example_update_1
      example_update_2 example_update_3 example_report compiled_two_layers
      del: One_nat_def)

section \<open>The backward pass\<close>

text \<open>
  Claim C1. For every model and every gradient, \<open>back_propogate_and_update\<close> visits
  the layers in reverse insertion order (layer \<open>n\<close>, then \<open>n - 1\<close>, down to layer 1);
  on each layer it calls \<open>back_propogate\<close> with the current gradient and then at once
  \<open>optimize\<close> on the same layer with the optimizer, and the gradient a layer returns is
  the one the layer before it receives. The calls recorded on the wrapped layers are
  exactly the expected ones, and the layers' state ends as without the wrapping.
\<close>

theorem back_propogate_and_update_reverse_order:
  "back_propogate_and_update (instrument m) dEdO opt (w, [])
   = (back_propogate_and_update m dEdO opt w,
      reverse_order_calls (length (layers m)) (layers m) dEdO opt w)"
  using backward_loop_traced[of "length (layers m)" "layers m" dEdO opt w "[]"]
  by (simp add: back_propogate_and_update_def instrument_def)

text \<open>Two layers sharing one weight 3, learning rate 1: layer 2 is visited first, and
  layer 1 receives the gradient layer 2 returned, scaled by the weight as it was before
  layer 2 was optimized.\<close>

theorem back_propogate_and_update_reverse_order_example:
  "back_propogate_and_update (instrument two_layer_model) (Arr1 [1]) 1 (3, [])
   = (1, [Back_propogate 2 (Arr1 [1]), Optimize 2 1, Back_propogate 1 (Arr1 [3]), Optimize 1 1])"
  unfolding back_propogate_and_update_reverse_order
  by (simp add: back_propogate_and_update_def model_defs eval_nat_numeral)

section \<open>The batches of fit\<close>

text \<open>
  Claim C2, as it holds. For a dataset \<open>X\<close> of \<open>m\<close> rows and its labels \<open>y\<close>:
  with no batch size and \<open>m \<ge> 1\<close>, \<open>fit\<close> processes in every epoch exactly one batch,
  the whole of \<open>X\<close> with the first \<open>m\<close> labels; with batch size \<open>k \<ge> 1\<close>, \<open>fit\<close>
  processes in every epoch \<open>ceil(m / k)\<close> batches in order, batch \<open>i\<close> holding the rows
  \<open>i * k, ..., i * k + k - 1\<close> that exist and the labels at the same positions, so the
  batches are contiguous, in the original order, and together are \<open>X\<close> with no row
  repeated or skipped; every batch has \<open>k\<close> rows but the last, which has \<open>m mod k\<close> rows
  when that is not zero. That the batches are processed is said by comparing \<open>fit\<close>
  with \<open>epochs_over_batches\<close> on that list of batches.
\<close>

theorem fit_batches_partition:
  fixes X y :: ndarray and k :: nat
  shows "(0 < shape0 X \<longrightarrow>
            epoch_batches X y (fit_batch_size None X) = Inr [(X, slice0 y 0 (int (shape0 X)))]
          \<and> fit m X y epochs None w
              = epochs_over_batches m X y epochs [(X, slice0 y 0 (int (shape0 X)))] w
          \<and> axis0 (slice0 y 0 (int (shape0 X))) = take (shape0 X) (axis0 y))
       \<and> (0 < k \<longrightarrow>
            (case epoch_batches X y (fit_batch_size (Some (int k)) X) of
               Inl e \<Rightarrow> False
             | Inr bs \<Rightarrow>
                 fit m X y epochs (Some (int k)) w = epochs_over_batches m X y epochs bs w
               \<and> int (length bs) = \<lceil>real (shape0 X) / real k\<rceil>
               \<and> concat (map (\<lambda>b. axis0 (fst b)) bs) = axis0 X
               \<and> (\<forall>i<length bs.
                     axis0 (fst (bs ! i)) = take k (drop (i * k) (axis0 X))
                   \<and> axis0 (snd (bs ! i)) = take k (drop (i * k) (axis0 y))
                   \<and> shape0 (fst (bs ! i))
                       = (if Suc i < length bs \<or> shape0 X mod k = 0 then k
                          else shape0 X mod k))))"
proof (intro conjI impI)
  assume pos: "0 < shape0 X"
  let ?m = "shape0 X"
  have "(?m + ?m - 1) div ?m = 1"
    using pos by (intro div_nat_eqI) simp_all
  then have rg: "py_range 0 (int ?m) (int ?m) = Inr [0]"
    using py_range_pos[OF pos, of ?m] by simp
  have sX: "slice0 X 0 (int ?m) = X"
    by (cases X) (simp_all add: py_slice_def slice_bound_def)
  show eb: "epoch_batches X y (fit_batch_size None X) = Inr [(X, slice0 y 0 (int ?m))]"
    by (simp add: epoch_batches_def fit_batch_size_def rg sX)
  show "fit m X y epochs None w
          = epochs_over_batches m X y epochs [(X, slice0 y 0 (int ?m))] w"
    by (rule fit_over_batches[OF eb])
  show "axis0 (slice0 y 0 (int ?m)) = take ?m (axis0 y)"
    using axis0_slice0[of y 0 ?m] by simp
next
  assume k: "0 < k"
  let ?m = "shape0 X"
  let ?c = "(?m + k - 1) div k"
  let ?bs = "map (\<lambda>i. (slice0 X (int (i * k)) (int (i * k) + int k),
                         slice0 y (int (i * k)) (int (i * k) + int k))) [0..<?c]"
  have eb: "epoch_batches X y (fit_batch_size (Some (int k)) X) = Inr ?bs"
    by (simp add: epoch_batches_def fit_batch_size_def py_range_pos[OF k] o_def)
  have ft: "fit m X y epochs (Some (int k)) w = epochs_over_batches m X y epochs ?bs w"
    by (rule fit_over_batches[OF eb])
  have len: "int (length ?bs) = \<lceil>real ?m / real k\<rceil>"
    using ceil_div_eq[OF k, of ?m] by simp
  have cover: "?m \<le> ?c * k" using k by (rule ceil_div_covers)
  have cX: "concat (map (\<lambda>b. axis0 (fst b)) ?bs) = axis0 X"
    using cover concat_chunks[of k "axis0 X" ?c]
    by (simp add: o_def axis0_slice0_mult shape0_axis0)
  have each: "\<forall>i<length ?bs.
       axis0 (fst (?bs ! i)) = take k (drop (i * k) (axis0 X))
     \<and> axis0 (snd (?bs ! i)) = take k (drop (i * k) (axis0 y))
     \<and> shape0 (fst (?bs ! i)) = (if Suc i < length ?bs \<or> ?m mod k = 0 then k else ?m mod k)"
  proof (intro allI impI)
    fix i assume "i < length ?bs"
    then have i: "i < ?c" by simp
    have "shape0 (slice0 X (int (i * k)) (int (i * k) + int k)) = min k (?m - i * k)"
      by (simp add: shape0_axis0 axis0_slice0_mult min.commute)
    then show "axis0 (fst (?bs ! i)) = take k (drop (i * k) (axis0 X))
     \<and> axis0 (snd (?bs ! i)) = take k (drop (i * k) (axis0 y))
     \<and> shape0 (fst (?bs ! i)) = (if Suc i < length ?bs \<or> ?m mod k = 0 then k else ?m mod k)"
      using i batch_size_nat[OF k i] by (simp add: axis0_slice0_mult)
  qed
  show "case epoch_batches X y (fit_batch_size (Some (int k)) X) of
          Inl e \<Rightarrow> False
        | Inr bs \<Rightarrow>
            fit m X y epochs (Some (int k)) w = epochs_over_batches m X y epochs bs w
          \<and> int (length bs) = \<lceil>real (shape0 X) / real k\<rceil>
          \<and> concat (map (\<lambda>b. axis0 (fst b)) bs) = axis0 X
          \<and> (\<forall>i<length bs.
                axis0 (fst (bs ! i)) = take k (drop (i * k) (axis0 X))
              \<and> axis0 (snd (bs ! i)) = take k (drop (i * k) (axis0 y))
              \<and> shape0 (fst (bs ! i))
                  = (if Suc i < length bs \<or> shape0 X mod k = 0 then k else shape0 X mod k))"
    unfolding eb sum.case using ft len cX each by blast
qed

text \<open>
  Five rows, batch size 2, one epoch, on the compiled model of two layers with weight
  10 and learning rate 1: three batches of 2, 2 and 1 rows; each batch lowers the weight
  by 2 (one \<open>optimize\<close> per layer), and the weight ends at 4.
\<close>

theorem fit_batches_partition_example:
  "0 < shape0 (Arr2 1 [[1], [2], [3], [4], [5]]) \<and> (0::nat) < 2
   \<and> epoch_batches (Arr2 1 [[1], [2], [3], [4], [5]]) (Arr1 [1, 2, 3, 4, 5]) 2
       = Inr [(Arr2 1 [[1], [2]], Arr1 [1, 2]), (Arr2 1 [[3], [4]], Arr1 [3, 4]),
              (Arr2 1 [[5]], Arr1 [5])]
   \<and> \<lceil>real (shape0 (Arr2 1 [[1], [2], [3], [4], [5]])) / real (2::nat)\<rceil> = 3
   \<and> fit compiled_two_layer_model (Arr2 1 [[1], [2], [3], [4], [5]]) (Arr1 [1, 2, 3, 4, 5]) 1
         (Some 2) 10
       = epochs_over_batches compiled_two_layer_model (Arr2 1 [[1], [2], [3], [4], [5]])
           (Arr1 [1, 2, 3, 4, 5]) 1
           [(Arr2 1 [[1], [2]], Arr1 [1, 2]), (Arr2 1 [[3], [4]], Arr1 [3, 4]),
            (Arr2 1 [[5]], Arr1 [5])] 10
   \<and> fit compiled_two_layer_model (Arr2 1 [[1], [2], [3], [4], [5]]) (Arr1 [1, 2, 3, 4, 5]) 1
         (Some 2) 10 = (Inr (), 4)
   \<and> fit compiled_two_layer_model (Arr2 1 [[1], [2], [3], [4], [5]]) (Arr1 [1, 2, 3, 4, 5]) 1
         None 10
       = epochs_over_batches compiled_two_layer_model (Arr2 1 [[1], [2], [3], [4], [5]])
           (Arr1 [1, 2, 3, 4, 5]) 1
           [(Arr2 1 [[1], [2], [3], [4], [5]], Arr1 [1, 2, 3, 4, 5])] 10"
proof -
  let ?X = "Arr2 1 [[1], [2], [3], [4], [5]]" and ?y = "Arr1 [1, 2, 3, 4, 5]"
  let ?bs = "[(Arr2 1 [[1], [2]], Arr1 [1, 2]), (Arr2 1 [[3], [4]], Arr1 [3, 4]),
              (Arr2 1 [[5]], Arr1 [5])]"
  have pos: "0 < shape0 ?X" and k: "(0::nat) < 2" by simp_all
  have two: "int 2 = 2" by simp
  have c: "\<lceil>real (shape0 ?X) / real (2::nat)\<rceil> = 3"
  proof -
    have "\<lceil>5 / 2 :: real\<rceil> = 3" by linarith
    then show ?thesis by simp
  qed
  have sy: "slice0 ?y 0 (int (shape0 ?X)) = ?y" by (simp add: py_slice_def slice_bound_def)
  have eb: "epoch_batches ?X ?y (fit_batch_size (Some 2) ?X) = Inr ?bs"
    using example_batches by (simp only: fit_batch_size_def option.case)
  note T = fit_batches_partition[of ?X ?y compiled_two_layer_model 1 10 2]
  from T pos have n: "fit compiled_two_layer_model ?X ?y 1 None 10
      = epochs_over_batches compiled_two_layer_model ?X ?y 1 [(?X, ?y)] 10"
    unfolding sy by blast
  from T k have "case epoch_batches ?X ?y (fit_batch_size (Some 2) ?X) of
        Inl e \<Rightarrow> False
      | Inr bs \<Rightarrow>
          fit compiled_two_layer_model ?X ?y 1 (Some 2) 10
            = epochs_over_batches compiled_two_layer_model ?X ?y 1 bs 10
        \<and> int (length bs) = \<lceil>real (shape0 ?X) / real (2::nat)\<rceil>
        \<and> concat (map (\<lambda>b. axis0 (fst b)) bs) = axis0 ?X
        \<and> (\<forall>i<length bs.
              axis0 (fst (bs ! i)) = take 2 (drop (i * 2) (axis0 ?X))
            \<and> axis0 (snd (bs ! i)) = take 2 (drop (i * 2) (axis0 ?y))
            \<and> shape0 (fst (bs ! i))
                = (if Suc i < length bs \<or> shape0 ?X mod 2 = 0 then 2 else shape0 ?X mod 2))"
    unfolding two by blast
  then have s: "fit compiled_two_layer_model ?X ?y 1 (Some 2) 10
            = epochs_over_batches compiled_two_layer_model ?X ?y 1 ?bs 10"
    unfolding eb sum.case by blast
  show ?thesis
    using pos k example_batches c s example_fit n by blast
qed

text \<open>
  Without a batch size an empty dataset makes the step of the inner \<open>range\<close> zero, and
  so does the batch size 0: the first epoch raises ValueError before any batch. With
  the batch size -2 the inner \<open>range\<close> is empty and no row of the five is processed.
\<close>

theorem fit_empty_dataset_raises:
  "epoch_batches (Arr2 2 []) (Arr1 []) (fit_batch_size None (Arr2 2 [])) = Inl ValueError
   \<and> fit zero_layer_model (Arr2 2 []) (Arr1 []) 1 None () = (Inl ValueError, ())
   \<and> fit zero_layer_model (Arr2 1 [[1], [2], [3], [4], [5]]) (Arr1 [1, 2, 3, 4, 5]) 1 (Some 0) ()
       = (Inl ValueError, ())
   \<and> epoch_batches (Arr2 1 [[1], [2], [3], [4], [5]]) (Arr1 [1, 2, 3, 4, 5])
         (fit_batch_size (Some (- 2)) (Arr2 1 [[1], [2], [3], [4], [5]])) = Inr []"
  by (simp add: fit_def fit_batch_size_def epoch_batches_def py_range_def upto.simps)

section \<open>compile\<close>

text \<open>
  Claim C3, as it holds. \<open>compile\<close> binds the optimizer and looks the loss name up
  among the attributes of the losses module: the two loss names bind their function;
  the module's other top-level names \<open>np\<close>, \<open>logging\<close> and \<open>logger\<close> are bound
  without an error; a name that is no attribute of the module fails with an
  AttributeError carrying the name, the optimizer staying bound.
\<close>

theorem compile_attribute_lookup:
  "compile interp m opt ''mean_squared_error''
     = (Inr (), m\<lparr>optimizer := Some opt, loss := Some Function_mean_squared_error\<rparr>)
   \<and> compile interp m opt ''cross_entropy''
     = (Inr (), m\<lparr>optimizer := Some opt, loss := Some Function_cross_entropy\<rparr>)
   \<and> compile interp m opt ''np''
     = (Inr (), m\<lparr>optimizer := Some opt, loss := Some Module_numpy\<rparr>)
   \<and> compile interp m opt ''logging''
     = (Inr (), m\<lparr>optimizer := Some opt, loss := Some Module_logging\<rparr>)
   \<and> compile interp m opt ''logger''
     = (Inr (), m\<lparr>optimizer := Some opt, loss := Some Logger_object\<rparr>)
   \<and> (name \<notin> {''np'', ''logging'', ''logger'', ''mean_squared_error'', ''cross_entropy''}
        \<and> name \<notin> set interp
        \<longrightarrow> compile interp m opt name = (Inl (AttributeError name), m\<lparr>optimizer := Some opt\<rparr>))"
  by (simp add: compile_def getattr_losses_def losses_namespace_def)

theorem compile_attribute_lookup_example:
  "''foo'' \<notin> {''np'', ''logging'', ''logger'', ''mean_squared_error'', ''cross_entropy''}
   \<and> ''foo'' \<notin> set [''__name__'', ''__doc__'']
   \<and> fst (compile [''__name__'', ''__doc__''] (init False False :: (unit, unit) sequential) () ''foo'')
       = Inl (AttributeError ''foo'')
   \<and> loss (snd (compile [''__name__'', ''__doc__''] (init False False :: (unit, unit) sequential) ()
        ''cross_entropy'')) = Some Function_cross_entropy"
  using compile_attribute_lookup[of "[''__name__'', ''__doc__'']" "init False False :: (unit, unit) sequential" "()" "''foo''"]
  by simp

text \<open>The name \<open>np\<close> is not a loss name, and \<open>compile\<close> succeeds on it.\<close>

theorem compile_accepts_np:
  "''np'' \<notin> {''mean_squared_error'', ''cross_entropy''}
   \<and> compile [] (init False False :: (unit, unit) sequential) () ''np''
       = (Inr (), \<lparr>layers = [], verbose = False, vis_each_epoch = False,
                   optimizer = Some (), loss = Some Module_numpy\<rparr>)"
  by (simp add: compile_def getattr_losses_def losses_namespace_def init_def)

section \<open>accuracy\<close>

text \<open>
  Claim C4. On the model without layers the predicted classes of the rows \<open>[1, 0]\<close>
  and \<open>[0, 1]\<close> are 0 and 1; against the labels 1 and 0 both samples are wrong.
  \<open>accuracy\<close> halves the count of wrong samples and returns 50, where
  \<open>100 - (mismatches / total_samples) * 100\<close> is 0.
\<close>

theorem accuracy_halves_mismatches:
  "predict zero_layer_model (Arr2 2 [[1, 0], [0, 1]]) False () = (Inr (Arr1 [0, 1]), ())
   \<and> accuracy zero_layer_model (Arr2 2 [[1, 0], [0, 1]]) (Arr1 [1, 0]) () = (Inr 50, ())"
  by (simp add: accuracy_def predict_def forwardpass_def zero_layers elementwise2_def
      bdim_def stretch_def count_nonzero_def Let_def)

section \<open>mean_squared_error\<close>




section \<open>cross_entropy\<close>




section \<open>Rank-1 targets\<close>

text \<open>
  Claim C7. For every prediction array \<open>p\<close> and every rank-1 target \<open>t\<close>, both loss
  functions return for \<open>t\<close> exactly what they return for the single-column matrix
  holding the entries of \<open>t\<close>, with and without the derivative.
\<close>

theorem loss_rank1_target_as_column: "mean_squared_error p (Arr1 t) rd = mean_squared_error p (Arr2 1 (map (\<lambda>v. [v]) t)) rd
  \<and> cross_entropy p (Arr1 t) rd = cross_entropy p (Arr2 1 (map (\<lambda>v. [v]) t)) rd"
  by (simp add: mean_squared_error_def cross_entropy_def promote_target_def)

theorem loss_rank1_target_as_column_example:
  "mean_squared_error (Arr2 2 [[1, 2], [3, 4]]) (Arr1 [1, 2]) True
     = Inr (Error_and_deriv (Scalar (Some (3 / 2))) (Arr2 2 [[0, 1], [1, 2]]))
   \<and> mean_squared_error (Arr2 2 [[1, 2], [3, 4]]) (Arr2 1 [[1], [2]]) True
     = Inr (Error_and_deriv (Scalar (Some (3 / 2))) (Arr2 2 [[0, 1], [1, 2]]))"
proof -
  have "mean_squared_error (Arr2 2 [[1, 2], [3, 4]]) (Arr2 1 [[1], [2]]) True
     = Inr (Error_and_deriv (Scalar (Some (3 / 2))) (Arr2 2 [[0, 1], [1, 2]]))"
    by (simp add: mean_squared_error_def promote_target_def np_subtract_def elementwise2_def
        bdim_def stretch_def f64_results_def np_mean_def np_square_def eval_nat_numeral
        small_numbers)
  then show ?thesis
    using loss_rank1_target_as_column[of "Arr2 2 [[1, 2], [3, 4]]" "[1, 2]" True] by simp
qed

section \<open>forwardpass and predict\<close>

text \<open>
  Claim C8. For a model without layers and every input \<open>X\<close>, \<open>forwardpass(X)\<close> without
  the derivative returns \<open>X\<close> unchanged, and the layers' state is untouched.
\<close>

theorem forwardpass_no_layers_identity: "layers m = [] \<Longrightarrow> forwardpass m X False w = (Inr (Output X), w)"
  by (simp add: forwardpass_def)

theorem forwardpass_no_layers_identity_example:
  "layers (init False False :: (unit, unit) sequential) = []
   \<and> forwardpass (init False False :: (unit, unit) sequential) (Arr2 2 [[0, 0], [1, 1]]) False ()
       = (Inr (Output (Arr2 2 [[0, 0], [1, 1]])), ())"
proof -
  have h: "layers (init False False :: (unit, unit) sequential) = []" by (simp add: init_def)
  show ?thesis using h forwardpass_no_layers_identity[OF h] by simp
qed

text \<open>
  Claim C9, as it holds. \<open>predict\<close> with \<open>prob=True\<close> returns the output of the
  forward pass unchanged. With \<open>prob=False\<close>, when that output is a matrix with at
  least one column, it returns for each row the index of the first occurrence of the
  row's largest entry.
\<close>

theorem predict_argmax_or_raw:
  assumes "forwardpass m X False w = (Inr (Output Z), w')"
  shows "predict m X True w = (Inr Z, w')
       \<and> (Z = Arr2 n rows \<and> 0 < n \<and> rect Z \<longrightarrow>
            predict m X False w = (Inr (Arr1 (map (\<lambda>r. real (argmax r)) rows)), w')
          \<and> (\<forall>r\<in>set rows. argmax r < length r
                \<and> r ! argmax r = Max (set r)
                \<and> (\<forall>j<argmax r. r ! j < r ! argmax r)))"
proof (intro conjI impI)
  show "predict m X True w = (Inr Z, w')"
    using assms by (simp add: predict_def)
next
  assume Z: "Z = Arr2 n rows \<and> 0 < n \<and> rect Z"
  then show "predict m X False w = (Inr (Arr1 (map (\<lambda>r. real (argmax r)) rows)), w')"
    using assms by (simp add: predict_def)
next
  assume Z: "Z = Arr2 n rows \<and> 0 < n \<and> rect Z"
  show "\<forall>r\<in>set rows. argmax r < length r \<and> r ! argmax r = Max (set r)
          \<and> (\<forall>j<argmax r. r ! j < r ! argmax r)"
  proof
    fix r assume "r \<in> set rows"
    then have "length r = n" using Z by (auto simp: list_all_iff)
    then have "r \<noteq> []" using Z by auto
    then show "argmax r < length r \<and> r ! argmax r = Max (set r)
          \<and> (\<forall>j<argmax r. r ! j < r ! argmax r)"
      using argmax_less[of r] argmax_is_max[of r] argmax_first[of _ r] by blast
  qed
qed

theorem predict_argmax_or_raw_example:
  "forwardpass two_layer_model (Arr2 2 [[1, 3], [4, 2]]) False 3
     = (Inr (Output (Arr2 2 [[9, 27], [36, 18]])), 3)
   \<and> rect (Arr2 2 [[9, 27], [36, 18]])
   \<and> predict two_layer_model (Arr2 2 [[1, 3], [4, 2]]) True 3
     = (Inr (Arr2 2 [[9, 27], [36, 18]]), 3)
   \<and> predict two_layer_model (Arr2 2 [[1, 3], [4, 2]]) False 3 = (Inr (Arr1 [1, 0]), 3)"
proof -
  have h: "forwardpass two_layer_model (Arr2 2 [[1, 3], [4, 2]]) False 3
     = (Inr (Output (Arr2 2 [[9, 27], [36, 18]])), 3)"
    by (simp add: forwardpass_def model_defs)
  from predict_argmax_or_raw[OF h, of 2 "[[9, 27], [36, 18]]"] show ?thesis
    using h by simp
qed

text \<open>A forward-pass output with one row and no column has no largest entry:
  \<open>predict\<close> raises ValueError.\<close>

theorem predict_no_columns_raises:
  "predict zero_layer_model (Arr2 0 [[]]) False () = (Inl ValueError, ())"
  by (simp add: predict_def forwardpass_def zero_layers)

text \<open>
  Claim C10. For a model without layers and every input \<open>X\<close>, \<open>forwardpass\<close> with
  \<open>return_deriv=True\<close> fails with UnboundLocalError for \<open>Z_deriv\<close>, which only the loop
  body binds, while without the derivative it returns \<open>X\<close>.
\<close>

theorem forwardpass_no_layers_deriv_unbound:
  "layers m = [] \<Longrightarrow>
     forwardpass m X True w = (Inl (UnboundLocalError ''Z_deriv''), w)
   \<and> fst (forwardpass m X False w) = Inr (Output X)"
  by (simp add: forwardpass_def)

theorem forwardpass_no_layers_deriv_unbound_example:
  "layers zero_layer_model = []
   \<and> forwardpass zero_layer_model (Arr2 2 [[0, 0], [1, 1]]) True ()
       = (Inl (UnboundLocalError ''Z_deriv''), ())
   \<and> fst (forwardpass zero_layer_model (Arr2 2 [[0, 0], [1, 1]]) False ())
       = Inr (Output (Arr2 2 [[0, 0], [1, 1]]))"
proof -
  have h: "layers zero_layer_model = []"
    by (simp add: zero_layer_model_def compile_def init_def getattr_losses_def losses_namespace_def)
  show ?thesis using h forwardpass_no_layers_deriv_unbound[OF h] by simp
qed

end
